theory Spec2Isabelle
  imports Main
begin

chapter \<open>Email storage service: sync engine, archive store and change listener\<close>

text \<open>
  A shallow embedding of the JavaScript services and SQL migrations of the email storage
  service. JavaScript \<open>undefined\<close>/\<open>null\<close> are \<open>None\<close>, a thrown \<open>Error\<close> is the
  left summand of a sum, the database is an explicit record of tables that every
  operation takes and returns, and the mail provider is a script of responses indexed by
  the number of calls made so far.
\<close>

section \<open>Provider records (types/fastmail.js)\<close>

type_synonym keyword_map = "string \<rightharpoonup> bool"

record email_address =
  addr_name :: "string option"
  addr_email :: string

text \<open>The JSON object of one email as the provider sends it; every property may be absent.\<close>

record jmap_email =
  je_id :: "string option"
  je_threadId :: "string option"
  je_subject :: "string option"
  je_from :: "email_address list option"
  je_to :: "email_address list option"
  je_cc :: "email_address list option"
  je_bcc :: "email_address list option"
  je_replyTo :: "email_address list option"
  je_sentAt :: "nat option"
  je_receivedAt :: "nat option"
  je_messageId :: "string option"
  je_inReplyTo :: "string option"
  je_references :: "string list option"
  je_bodyValues :: "(string \<rightharpoonup> string option) option"
  je_attachments :: "string list option"
  je_keywords :: "keyword_map option"
  je_size :: "nat option"

text \<open>An instance of class \<open>FastmailEmail\<close>.\<close>

record fastmail_email =
  fe_id :: "string option"
  fe_threadId :: "string option"
  fe_subject :: "string option"
  fe_from :: "email_address list"
  fe_to :: "email_address list"
  fe_cc :: "email_address list"
  fe_bcc :: "email_address list"
  fe_replyTo :: "email_address list"
  fe_sentAt :: "nat option"
  fe_receivedAt :: "nat option"
  fe_messageId :: "string option"
  fe_inReplyTo :: "string option"
  fe_references :: "string list"
  fe_bodyValues :: "string \<rightharpoonup> string option"
  fe_textBody :: string
  fe_htmlBody :: string
  fe_attachments :: "string list"
  fe_keywords :: keyword_map
  fe_size :: nat
  fe_isRead :: bool
  fe_isFlagged :: bool
  fe_isDeleted :: bool

text \<open>\<open>x || d\<close> on a possibly absent object or array.\<close>

definition or_default :: "'a option \<Rightarrow> 'a \<Rightarrow> 'a" where
  "or_default x d = (case x of None \<Rightarrow> d | Some v \<Rightarrow> v)"

text \<open>\<open>keywords[k] || false\<close>: an absent keyword and a false one both give false.\<close>

definition keyword_flag :: "keyword_map \<Rightarrow> string \<Rightarrow> bool" where
  "keyword_flag kw k = (case kw k of None \<Rightarrow> False | Some b \<Rightarrow> b)"

text \<open>\<open>bodyValues[part] ? (bodyValues[part].value || '') : ''\<close>.\<close>

definition extractBody :: "(string \<rightharpoonup> string option) \<Rightarrow> string \<Rightarrow> string" where
  "extractBody bv part = (case bv part of None \<Rightarrow> [] | Some v \<Rightarrow> or_default v [])"

definition extractTextBody :: "(string \<rightharpoonup> string option) \<Rightarrow> string" where
  "extractTextBody bv = extractBody bv ''textBody''"

definition extractHtmlBody :: "(string \<rightharpoonup> string option) \<Rightarrow> string" where
  "extractHtmlBody bv = extractBody bv ''htmlBody''"

text \<open>
  \<open>x ? new Date(x) : null\<close>. Dates are numbers here (the time in milliseconds); the
  falsy ones, absent and 0, give \<open>null\<close>.
\<close>

definition date_or_null :: "nat option \<Rightarrow> nat option" where
  "date_or_null x = (case x of None \<Rightarrow> None | Some t \<Rightarrow> if t = 0 then None else Some t)"

text \<open>The constructor of \<open>FastmailEmail\<close>. \<open>data.size || 0\<close> maps an absent size to 0.\<close>

definition FastmailEmail :: "jmap_email \<Rightarrow> fastmail_email" where
  "FastmailEmail d =
     (let bv = or_default (je_bodyValues d) Map.empty;
          kw = or_default (je_keywords d) Map.empty
      in \<lparr> fe_id = je_id d,
           fe_threadId = je_threadId d,
           fe_subject = je_subject d,
           fe_from = or_default (je_from d) [],
           fe_to = or_default (je_to d) [],
           fe_cc = or_default (je_cc d) [],
           fe_bcc = or_default (je_bcc d) [],
           fe_replyTo = or_default (je_replyTo d) [],
           fe_sentAt = date_or_null (je_sentAt d),
           fe_receivedAt = date_or_null (je_receivedAt d),
           fe_messageId = je_messageId d,
           fe_inReplyTo = je_inReplyTo d,
           fe_references = or_default (je_references d) [],
           fe_bodyValues = bv,
           fe_textBody = extractTextBody bv,
           fe_htmlBody = extractHtmlBody bv,
           fe_attachments = or_default (je_attachments d) [],
           fe_keywords = kw,
           fe_size = or_default (je_size d) 0,
           fe_isRead = keyword_flag kw ''$seen'',
           fe_isFlagged = keyword_flag kw ''$flagged'',
           fe_isDeleted = keyword_flag kw ''$deleted'' \<rparr>)"

definition getFromAddress :: "fastmail_email \<Rightarrow> string option" where
  "getFromAddress e = (case fe_from e of [] \<Rightarrow> None | a # _ \<Rightarrow> Some (addr_email a))"

definition getToAddresses :: "fastmail_email \<Rightarrow> string list" where
  "getToAddresses e = map addr_email (fe_to e)"

definition getCcAddresses :: "fastmail_email \<Rightarrow> string list" where
  "getCcAddresses e = map addr_email (fe_cc e)"

definition getBccAddresses :: "fastmail_email \<Rightarrow> string list" where
  "getBccAddresses e = map addr_email (fe_bcc e)"

definition getReplyToAddresses :: "fastmail_email \<Rightarrow> string list" where
  "getReplyToAddresses e = map addr_email (fe_replyTo e)"

section \<open>Stored records (types/email.js)\<close>

text \<open>
  The columns that \<open>toSupabaseRow\<close> writes. The database adds \<open>id\<close>, \<open>created_at\<close> and
  \<open>updated_at\<close> (see \<open>email_row\<close> below).
\<close>

record email_fields =
  fastmail_id :: "string option"
  thread_id :: "string option"
  mailbox_id :: "string option"
  subject :: "string option"
  from_address :: "string option"
  to_addresses :: "string list"
  cc_addresses :: "string list"
  bcc_addresses :: "string list"
  reply_to_addresses :: "string list"
  date_received :: "nat option"
  date_sent :: "nat option"
  message_id :: "string option"
  in_reply_to :: "string option"
  email_references :: "string list"
  body_text :: "string option"
  body_html :: "string option"
  attachments :: "string list"
  flags :: keyword_map
  size_bytes :: nat
  is_read :: bool
  is_flagged :: bool
  is_deleted :: bool

text \<open>
  An instance of class \<open>StoredEmail\<close>, without the two timestamps the constructor takes
  from the clock (they are not written by \<open>toSupabaseRow\<close>).
\<close>

record stored_email =
  se_id :: "nat option"
  se_fastmailId :: "string option"
  se_threadId :: "string option"
  se_mailboxId :: "string option"
  se_subject :: "string option"
  se_fromAddress :: "string option"
  se_toAddresses :: "string list"
  se_ccAddresses :: "string list"
  se_bccAddresses :: "string list"
  se_replyToAddresses :: "string list"
  se_dateReceived :: "nat option"
  se_dateSent :: "nat option"
  se_messageId :: "string option"
  se_inReplyTo :: "string option"
  se_references :: "string list"
  se_bodyText :: "string option"
  se_bodyHtml :: "string option"
  se_attachments :: "string list"
  se_flags :: keyword_map
  se_sizeBytes :: nat
  se_isRead :: bool
  se_isFlagged :: bool
  se_isDeleted :: bool

text \<open>
  \<open>StoredEmail.fromFastmailEmail(fastmailEmail, mailboxId)\<close> composed with the
  constructor of \<open>StoredEmail\<close>. The factory passes the references under the key
  \<open>email_references\<close> while the constructor reads \<open>data.references\<close>, so the stored list
  of references is empty. No \<open>id\<close> is passed.
\<close>

definition fromFastmailEmail :: "fastmail_email \<Rightarrow> string option \<Rightarrow> stored_email" where
  "fromFastmailEmail fe mailboxId =
     \<lparr> se_id = None,
       se_fastmailId = fe_id fe,
       se_threadId = fe_threadId fe,
       se_mailboxId = mailboxId,
       se_subject = fe_subject fe,
       se_fromAddress = getFromAddress fe,
       se_toAddresses = getToAddresses fe,
       se_ccAddresses = getCcAddresses fe,
       se_bccAddresses = getBccAddresses fe,
       se_replyToAddresses = getReplyToAddresses fe,
       se_dateReceived = fe_receivedAt fe,
       se_dateSent = fe_sentAt fe,
       se_messageId = fe_messageId fe,
       se_inReplyTo = fe_inReplyTo fe,
       se_references = [],
       se_bodyText = Some (fe_textBody fe),
       se_bodyHtml = Some (fe_htmlBody fe),
       se_attachments = fe_attachments fe,
       se_flags = fe_keywords fe,
       se_sizeBytes = fe_size fe,
       se_isRead = fe_isRead fe,
       se_isFlagged = fe_isFlagged fe,
       se_isDeleted = fe_isDeleted fe \<rparr>"

definition toSupabaseRow :: "stored_email \<Rightarrow> email_fields" where
  "toSupabaseRow s =
     \<lparr> fastmail_id = se_fastmailId s,
       thread_id = se_threadId s,
       mailbox_id = se_mailboxId s,
       subject = se_subject s,
       from_address = se_fromAddress s,
       to_addresses = se_toAddresses s,
       cc_addresses = se_ccAddresses s,
       bcc_addresses = se_bccAddresses s,
       reply_to_addresses = se_replyToAddresses s,
       date_received = se_dateReceived s,
       date_sent = se_dateSent s,
       message_id = se_messageId s,
       in_reply_to = se_inReplyTo s,
       email_references = se_references s,
       body_text = se_bodyText s,
       body_html = se_bodyHtml s,
       attachments = se_attachments s,
       flags = se_flags s,
       size_bytes = se_sizeBytes s,
       is_read = se_isRead s,
       is_flagged = se_isFlagged s,
       is_deleted = se_isDeleted s \<rparr>"

section \<open>Token encryption (services/oauth-handler.js)\<close>

text \<open>
  Node's \<open>crypto.createCipher('aes192', key)\<close> and \<open>createDecipher\<close> are library code:
  the model takes them as the parameters \<open>cipher\<close> (key and plaintext to hex text) and
  \<open>decipher\<close> (which throws on text it cannot decrypt). Token strings are byte strings.
\<close>

datatype js_error = Error string

record oauth_token =
  tok_accessToken :: string
  tok_refreshToken :: "string option"
  tok_tokenType :: string
  tok_expiresAt :: nat
  tok_scope :: "string option"

record encrypted_token =
  enc_accessToken :: string
  enc_refreshToken :: string
  enc_tokenType :: string
  enc_expiresAt :: nat
  enc_scope :: "string option"

record oauth_token_row =
  tr_account_id :: string
  tr_access_token :: string
  tr_refresh_token :: string
  tr_token_type :: string
  tr_expires_at :: nat
  tr_scope :: "string option"

record decrypted_token =
  dec_accessToken :: string
  dec_refreshToken :: string
  dec_tokenType :: string
  dec_expiresAt :: nat
  dec_scope :: "string option"

text \<open>\<open>this.config.encryptionKey || 'default-key-change-in-production'\<close>.\<close>

definition encryption_key :: "string option \<Rightarrow> string" where
  "encryption_key k =
     (case k of None \<Rightarrow> ''default-key-change-in-production''
      | Some s \<Rightarrow> if s = [] then ''default-key-change-in-production'' else s)"

definition encryptToken ::
  "(string \<Rightarrow> string \<Rightarrow> string) \<Rightarrow> string option \<Rightarrow> oauth_token \<Rightarrow> encrypted_token" where
  "encryptToken cipher encryptionKey token =
     (let key = encryption_key encryptionKey;
          encryptedAccessToken = cipher key (tok_accessToken token);
          encryptedRefreshToken =
            (case tok_refreshToken token of
               None \<Rightarrow> []
             | Some r \<Rightarrow> if r = [] then [] else cipher key r)
      in \<lparr> enc_accessToken = encryptedAccessToken,
           enc_refreshToken = encryptedRefreshToken,
           enc_tokenType = tok_tokenType token,
           enc_expiresAt = tok_expiresAt token,
           enc_scope = tok_scope token \<rparr>)"

text \<open>The row that \<open>storeToken\<close> inserts or updates (without the two clock columns).\<close>

definition storeToken_row :: "string \<Rightarrow> encrypted_token \<Rightarrow> oauth_token \<Rightarrow> oauth_token_row" where
  "storeToken_row accountId encryptedToken token =
     \<lparr> tr_account_id = accountId,
       tr_access_token = enc_accessToken encryptedToken,
       tr_refresh_token = enc_refreshToken encryptedToken,
       tr_token_type = tok_tokenType token,
       tr_expires_at = tok_expiresAt token,
       tr_scope = tok_scope token \<rparr>"

definition decryptToken ::
  "(string \<Rightarrow> string \<Rightarrow> js_error + string) \<Rightarrow> string option \<Rightarrow> oauth_token_row
     \<Rightarrow> js_error + decrypted_token" where
  "decryptToken decipher encryptionKey data =
     (let key = encryption_key encryptionKey
      in case decipher key (tr_access_token data) of
           Inl e \<Rightarrow> Inl e
         | Inr decryptedAccessToken \<Rightarrow>
             (case (if tr_refresh_token data = [] then Inr []
                    else decipher key (tr_refresh_token data)) of
                Inl e \<Rightarrow> Inl e
              | Inr decryptedRefreshToken \<Rightarrow>
                  Inr \<lparr> dec_accessToken = decryptedAccessToken,
                        dec_refreshToken = decryptedRefreshToken,
                        dec_tokenType = tr_token_type data,
                        dec_expiresAt = tr_expires_at data,
                        dec_scope = tr_scope data \<rparr>))"

text \<open>A small cipher with which the round trip can be run: the key is prepended.\<close>

definition prefix_cipher :: "string \<Rightarrow> string \<Rightarrow> string" where
  "prefix_cipher key plain = key @ plain"

definition prefix_decipher :: "string \<Rightarrow> string \<Rightarrow> js_error + string" where
  "prefix_decipher key text =
     (if take (length key) text = key then Inr (drop (length key) text)
      else Inl (Error ''bad decrypt''))"

section \<open>Email queries of the JMAP client (lib/fastmail-client.js)\<close>

record sort_spec =
  sort_property :: string
  sort_isAscending :: bool

text \<open>The \<open>options\<close> argument of \<open>getEmails\<close>; \<open>None\<close> is a property that is not passed.\<close>

record getEmails_options =
  opt_mailboxIds :: "string list option"
  opt_since :: "string option"
  opt_limit :: "nat option"
  opt_sort :: "sort_spec list option"

record email_query_filter =
  flt_inMailbox :: "string list option"
  flt_since :: "string option"

text \<open>The arguments of the \<open>Email/query\<close> method call that \<open>getEmails\<close> sends.\<close>

record email_query =
  q_accountId :: "string option"
  q_filter :: email_query_filter
  q_sort :: "sort_spec list"
  q_limit :: nat

text \<open>
  The destructuring defaults of \<open>getEmails\<close> and the construction of \<open>queryParams\<close>.
  \<open>if (since)\<close> skips an absent and an empty token.
\<close>

definition getEmails_queryParams :: "string option \<Rightarrow> getEmails_options \<Rightarrow> email_query" where
  "getEmails_queryParams accountId options =
     (let mailboxIds = opt_mailboxIds options;
          since = opt_since options;
          limit = or_default (opt_limit options) 100;
          sort = or_default (opt_sort options)
                   [\<lparr> sort_property = ''date'', sort_isAscending = False \<rparr>]
      in \<lparr> q_accountId = accountId,
           q_filter = \<lparr> flt_inMailbox = mailboxIds,
                        flt_since = (case since of None \<Rightarrow> None
                                     | Some t \<Rightarrow> if t = [] then None else Some t) \<rparr>,
           q_sort = sort,
           q_limit = limit \<rparr>)"

text \<open>The options object that \<open>syncEmails\<close> passes: \<open>{ since: lastSyncToken, limit: batchSize }\<close>.\<close>

definition syncEmails_options :: "string option \<Rightarrow> nat \<Rightarrow> getEmails_options" where
  "syncEmails_options lastSyncToken batchSize =
     \<lparr> opt_mailboxIds = None, opt_since = lastSyncToken,
       opt_limit = Some batchSize, opt_sort = None \<rparr>"

section \<open>The archive store: tables, constraints and triggers (migration 001)\<close>

text \<open>
  A row of table \<open>emails\<close>: the columns of \<open>toSupabaseRow\<close> and the three columns the
  database fills in. UUIDs are drawn from a counter.
\<close>

record email_row =
  row_id :: nat
  row_fields :: email_fields
  created_at :: nat
  updated_at :: nat

text \<open>
  A row of table \<open>email_search\<close>. Its columns \<open>search_vector\<close> and \<open>content_hash\<close> are
  both computed from one text (by \<open>to_tsvector\<close> or a cast, and by \<open>md5\<close>); the row is
  represented by that text. Column \<open>email_id\<close> references \<open>emails(id)\<close> and may be \<open>NULL\<close>.
\<close>

record search_row =
  sr_email_id :: "nat option"
  search_content :: string

record mailbox_fields =
  mb_fastmail_id :: "string option"
  mb_name :: "string option"
  mb_parent_id :: "string option"
  mb_role :: "string option"
  mb_sort_order :: "nat option"
  mb_total_emails :: nat
  mb_unread_emails :: nat

record mailbox_row =
  mbr_id :: nat
  mbr_fields :: mailbox_fields
  mbr_created_at :: nat
  mbr_updated_at :: nat

datatype sync_status = IDLE | SYNCING | COMPLETED | ERROR

record sync_row =
  account_id :: string
  last_sync_token :: "string option"
  last_sync_date :: "nat option"
  total_emails_synced :: nat
  last_error :: "string option"
  sync_status :: sync_status
  ss_created_at :: nat
  ss_updated_at :: nat

text \<open>The database: its tables, the UUID counter and the value of \<open>NOW()\<close>.\<close>

record database =
  emails :: "email_row list"
  email_search :: "search_row list"
  mailboxes :: "mailbox_row list"
  sync_state :: "sync_row list"
  next_uuid :: nat
  db_now :: nat

text \<open>
  An error object of the database client, with its \<open>code\<close>. Where the service puts the
  message of such an error into a text, the model puts the code.
\<close>

datatype pg_error = PgError (pg_code: string)

text \<open>The largest value of a column or parameter of type \<open>INTEGER\<close>; a larger one is
  refused with code 22003.\<close>

definition int4_max :: int where
  "int4_max = 2147483647"

definition int4_overflow :: "nat \<Rightarrow> bool" where
  "int4_overflow n = (int4_max < int n)"

text \<open>
  The columns of \<open>email_search\<close> that a unique index or constraint covers: the primary key
  \<open>id\<close>. The index \<open>idx_email_search_email_id\<close> on \<open>email_id\<close> is not unique, and no
  migration adds another.
\<close>

definition email_search_unique_columns :: "string list" where
  "email_search_unique_columns = [''id'']"

text \<open>
  The text of the trigger function \<open>update_email_search_vector\<close> and of
  \<open>repair_data_integrity\<close>: the four columns, \<open>COALESCE\<close>d to the empty string and joined
  by blanks.
\<close>

definition sql_search_content :: "email_fields \<Rightarrow> string" where
  "sql_search_content f =
     or_default (subject f) [] @ '' '' @ or_default (from_address f) [] @ '' '' @
     or_default (body_text f) [] @ '' '' @ or_default (body_html f) []"

text \<open>
  \<open>INSERT INTO email_search ... ON CONFLICT (email_id) DO UPDATE SET ...\<close>. The database
  accepts a conflict target only if a unique index or constraint covers it; otherwise
  the statement is refused with code 42P10, whatever the rows of the table.
\<close>

definition upsert_search :: "nat \<Rightarrow> string \<Rightarrow> search_row list \<Rightarrow> pg_error + search_row list" where
  "upsert_search eid content rows =
     (if ''email_id'' \<notin> set email_search_unique_columns then Inl (PgError ''42P10'')
      else if Some eid \<in> set (map sr_email_id rows)
      then Inr (map (\<lambda>r. if sr_email_id r = Some eid then r\<lparr> search_content := content \<rparr> else r)
                  rows)
      else Inr (rows @ [\<lparr> sr_email_id = Some eid, search_content = content \<rparr>]))"

text \<open>
  The trigger function \<open>update_email_search_vector\<close>, run by trigger
  \<open>update_email_search_vector_trigger\<close> after insert or update, for each row. An error
  in it aborts the statement that fired the trigger.
\<close>

definition update_email_search_vector :: "email_row \<Rightarrow> database \<Rightarrow> pg_error + database" where
  "update_email_search_vector NEW db =
     (case upsert_search (row_id NEW) (sql_search_content (row_fields NEW)) (email_search db) of
        Inl err \<Rightarrow> Inl err
      | Inr rows \<Rightarrow> Inr (db\<lparr> email_search := rows \<rparr>))"

fun for_each_row_trigger :: "email_row list \<Rightarrow> database \<Rightarrow> pg_error + database" where
  "for_each_row_trigger [] db = Inr db"
| "for_each_row_trigger (NEW # rest) db =
     (case update_email_search_vector NEW db of
        Inl err \<Rightarrow> Inl err
      | Inr db1 \<Rightarrow> for_each_row_trigger rest db1)"

text \<open>
  \<open>from('emails').insert(row).select().single()\<close>. \<open>size_bytes\<close> is an \<open>INTEGER\<close> and
  \<open>fastmail_id\<close> is \<open>UNIQUE NOT NULL\<close>: an absent id is refused with code 23502, a known
  one with code 23505. The search trigger runs after the row is inserted; when it fails
  the insert is undone and its error is the error of the insert.
\<close>

definition emails_insert :: "email_fields \<Rightarrow> database \<Rightarrow> (pg_error + email_row) \<times> database" where
  "emails_insert f db =
     (if int4_overflow (size_bytes f) then (Inl (PgError ''22003''), db)
      else if fastmail_id f = None then (Inl (PgError ''23502''), db)
      else if fastmail_id f \<in> set (map (\<lambda>r. fastmail_id (row_fields r)) (emails db))
      then (Inl (PgError ''23505''), db)
      else
        (let NEW = \<lparr> row_id = next_uuid db, row_fields = f,
                     created_at = db_now db, updated_at = db_now db \<rparr>
         in case update_email_search_vector NEW
                   (db\<lparr> emails := emails db @ [NEW], next_uuid := Suc (next_uuid db) \<rparr>) of
              Inl err \<Rightarrow> (Inl err, db)
            | Inr db1 \<Rightarrow> (Inr NEW, db1)))"

text \<open>
  \<open>UPDATE emails SET ... WHERE ...\<close>: the change is applied to the rows that satisfy the
  condition, trigger \<open>update_emails_updated_at\<close> sets \<open>updated_at\<close> to \<open>NOW()\<close> before
  each row is written, and the search trigger runs after it for each of them; when it
  fails the update is undone. An update that matches no row fires no trigger. The
  updated rows are returned. Neither update of the service changes \<open>fastmail_id\<close>.
\<close>

definition emails_update_where ::
  "(email_row \<Rightarrow> bool) \<Rightarrow> (email_row \<Rightarrow> email_row) \<Rightarrow> database
     \<Rightarrow> (pg_error + email_row list) \<times> database" where
  "emails_update_where cond change db =
     (let upd = (\<lambda>r. (change r)\<lparr> updated_at := db_now db \<rparr>);
          changed = map upd (filter cond (emails db))
      in case for_each_row_trigger changed
                (db\<lparr> emails := map (\<lambda>r. if cond r then upd r else r) (emails db) \<rparr>) of
           Inl err \<Rightarrow> (Inl err, db)
         | Inr db1 \<Rightarrow> (Inr changed, db1))"

text \<open>
  The columns an update object sets: a property that is \<open>undefined\<close> is not sent, so its
  column keeps its value. \<open>from_address\<close> is \<open>null\<close> rather than \<open>undefined\<close> when there
  is no sender and is written as such.
\<close>

definition keep_if_absent :: "'a option \<Rightarrow> 'a option \<Rightarrow> 'a option" where
  "keep_if_absent new old = (case new of None \<Rightarrow> old | Some v \<Rightarrow> Some v)"

definition patch_fields :: "email_fields \<Rightarrow> email_fields \<Rightarrow> email_fields" where
  "patch_fields new old =
     new\<lparr> fastmail_id := keep_if_absent (fastmail_id new) (fastmail_id old),
          thread_id := keep_if_absent (thread_id new) (thread_id old),
          mailbox_id := keep_if_absent (mailbox_id new) (mailbox_id old),
          subject := keep_if_absent (subject new) (subject old),
          date_received := keep_if_absent (date_received new) (date_received old),
          date_sent := keep_if_absent (date_sent new) (date_sent old),
          message_id := keep_if_absent (message_id new) (message_id old),
          in_reply_to := keep_if_absent (in_reply_to new) (in_reply_to old) \<rparr>"

text \<open>
  \<open>from('emails').update(row).eq('fastmail_id', id).select().single()\<close>: \<open>single\<close>
  reports code PGRST116 unless exactly one row comes back, and the update is undone.
\<close>

definition emails_update_single ::
  "string option \<Rightarrow> email_fields \<Rightarrow> database \<Rightarrow> (pg_error + email_row) \<times> database" where
  "emails_update_single fid row db =
     (if int4_overflow (size_bytes row) then (Inl (PgError ''22003''), db)
      else
        (case emails_update_where (\<lambda>r. fastmail_id (row_fields r) = fid)
                (\<lambda>r. r\<lparr> row_fields := patch_fields row (row_fields r) \<rparr>) db of
           (Inl err, db1) \<Rightarrow> (Inl err, db)
         | (Inr [data], db1) \<Rightarrow> (Inr data, db1)
         | (Inr other, db1) \<Rightarrow> (Inl (PgError ''PGRST116''), db)))"

section \<open>The storage service (lib/supabase-client.js)\<close>

text \<open>
  The text that \<open>updateSearchIndex\<close> indexes. It reads \<open>email.textBody\<close>, which an
  instance of \<open>StoredEmail\<close> does not have (the property is \<open>bodyText\<close>), so the third
  part is always empty.
\<close>

definition js_search_content :: "stored_email \<Rightarrow> string" where
  "js_search_content email =
     or_default (se_subject email) [] @ '' '' @ or_default (se_fromAddress email) [] @ '' '' @
     [] @ '' '' @ or_default (se_bodyHtml email) []"

text \<open>
  \<open>generateContentHash\<close> calls \<open>require('crypto')\<close>. The file is an ES module (it begins
  with \<open>import\<close> declarations), where \<open>require\<close> is not defined: the call throws a
  \<open>ReferenceError\<close>, whatever the content.
\<close>

definition generateContentHash :: "string \<Rightarrow> js_error + string" where
  "generateContentHash content = Inl (Error ''require is not defined'')"

text \<open>
  \<open>updateSearchIndex\<close>: the row to upsert is built first, its \<open>content_hash\<close> by
  \<open>generateContentHash\<close>; then the upsert with \<open>onConflict: 'email_id'\<close> is sent.
  Whatever is thrown, and an error of the upsert too, is caught and logged as a warning.
\<close>

definition updateSearchIndex :: "nat \<Rightarrow> stored_email \<Rightarrow> database \<Rightarrow> database" where
  "updateSearchIndex emailId email db =
     (let searchContent = js_search_content email
      in case generateContentHash searchContent of
           Inl thrown \<Rightarrow> db
         | Inr hash \<Rightarrow>
             (case upsert_search emailId searchContent (email_search db) of
                Inl err \<Rightarrow> db
              | Inr rows \<Rightarrow> db\<lparr> email_search := rows \<rparr>))"

text \<open>
  One round of the loop of \<open>storeEmails\<close>: insert, on a unique violation update instead,
  on any other error go on to the next email; a written row is pushed to the results and
  indexed. \<open>storeEmails\<close> passes no mailbox id to \<open>fromFastmailEmail\<close>.
\<close>

definition storeEmails_step :: "fastmail_email \<Rightarrow> database \<Rightarrow> email_row option \<times> database" where
  "storeEmails_step email db =
     (let storedEmail = fromFastmailEmail email None;
          row = toSupabaseRow storedEmail
      in case emails_insert row db of
           (Inr data, db1) \<Rightarrow> (Some data, updateSearchIndex (row_id data) storedEmail db1)
         | (Inl err, db1) \<Rightarrow>
             if pg_code err = ''23505''
             then (case emails_update_single (fastmail_id row) row db1 of
                     (Inr data, db2) \<Rightarrow>
                       (Some data, updateSearchIndex (row_id data) storedEmail db2)
                   | (Inl updateError, db2) \<Rightarrow> (None, db2))
             else (None, db1))"

fun storeEmails :: "fastmail_email list \<Rightarrow> database \<Rightarrow> email_row list \<times> database" where
  "storeEmails [] db = ([], db)"
| "storeEmails (email # rest) db =
     (case storeEmails_step email db of
        (written, db1) \<Rightarrow>
          (case storeEmails rest db1 of
             (results, db2) \<Rightarrow>
               ((case written of None \<Rightarrow> results | Some data \<Rightarrow> data # results), db2)))"

text \<open>\<open>storeEmail\<close>, the single-email variant, throws where the batch variant goes on.\<close>

definition storeEmail :: "fastmail_email \<Rightarrow> database \<Rightarrow> (js_error + email_row) \<times> database" where
  "storeEmail email db =
     (let storedEmail = fromFastmailEmail email None;
          row = toSupabaseRow storedEmail
      in case emails_insert row db of
           (Inr data, db1) \<Rightarrow> (Inr data, updateSearchIndex (row_id data) storedEmail db1)
         | (Inl err, db1) \<Rightarrow>
             if pg_code err = ''23505''
             then (case emails_update_single (fastmail_id row) row db1 of
                     (Inr data, db2) \<Rightarrow>
                       (Inr data, updateSearchIndex (row_id data) storedEmail db2)
                   | (Inl updateError, db2) \<Rightarrow>
                       (Inl (Error (''Email storage failed: Failed to update email: ''
                                     @ pg_code updateError)), db2))
             else (Inl (Error (''Email storage failed: Failed to store email: ''
                                @ pg_code err)), db1))"

section \<open>Mailbox counters and integrity repair (migrations 001 and 003)\<close>

text \<open>
  \<open>update_mailbox_stats()\<close>: every mailbox row gets the counts of the emails that are not
  deleted and carry its id. An email without a mailbox id matches no mailbox.
\<close>

definition update_mailbox_stats :: "database \<Rightarrow> database" where
  "update_mailbox_stats db =
     db\<lparr> mailboxes :=
           map (\<lambda>m. m\<lparr> mbr_fields := (mbr_fields m)
                        \<lparr> mb_total_emails :=
                            length (filter (\<lambda>e. mailbox_id (row_fields e) \<noteq> None
                                      \<and> mailbox_id (row_fields e) = mb_fastmail_id (mbr_fields m)
                                      \<and> \<not> is_deleted (row_fields e)) (emails db)),
                          mb_unread_emails :=
                            length (filter (\<lambda>e. mailbox_id (row_fields e) \<noteq> None
                                      \<and> mailbox_id (row_fields e) = mb_fastmail_id (mbr_fields m)
                                      \<and> \<not> is_deleted (row_fields e)
                                      \<and> \<not> is_read (row_fields e)) (emails db)) \<rparr>,
                      mbr_updated_at := db_now db \<rparr>)
             (mailboxes db) \<rparr>"

text \<open>
  \<open>x NOT IN (SELECT ...)\<close> as a condition of \<open>WHERE\<close>: it selects the row when the
  subquery has no rows, or when \<open>x\<close> is not \<open>NULL\<close> and differs from each of them. For a
  \<open>NULL\<close> \<open>x\<close> and a subquery with rows it is \<open>NULL\<close>, which selects nothing.
\<close>

definition sql_not_in :: "'a option \<Rightarrow> 'a list \<Rightarrow> bool" where
  "sql_not_in x rows = (case x of None \<Rightarrow> rows = [] | Some v \<Rightarrow> v \<notin> set rows)"

text \<open>
  \<open>repair_data_integrity()\<close>: delete the search rows whose \<open>email_id\<close> is
  \<open>NOT IN (SELECT id FROM emails)\<close>, insert a search row for every email that is not
  deleted and has none (a plain \<open>INSERT\<close>, without conflict target), recompute the
  mailbox counters; one result row per action with the number of items affected.
\<close>

definition repair_data_integrity :: "database \<Rightarrow> (string \<times> nat) list \<times> database" where
  "repair_data_integrity db =
     (let kept = filter (\<lambda>s. \<not> sql_not_in (sr_email_id s) (map row_id (emails db)))
                   (email_search db);
          orphaned_count = length (email_search db) - length kept;
          missing = filter (\<lambda>e. Some (row_id e) \<notin> set (map sr_email_id kept)
                              \<and> \<not> is_deleted (row_fields e)) (emails db);
          missing_count = length missing;
          created = map (\<lambda>e. \<lparr> sr_email_id = Some (row_id e),
                                search_content = sql_search_content (row_fields e) \<rparr>) missing
      in ([(''removed_orphaned_search_entries'', orphaned_count),
           (''created_missing_search_entries'', missing_count),
           (''updated_mailbox_statistics'', 0)],
          update_mailbox_stats (db\<lparr> email_search := kept @ created \<rparr>)))"

text \<open>
  Two properties of a store that the repair is to establish: no search row names an
  email that does not exist, and every email that is not deleted has a search row.
\<close>

definition no_orphan_search_rows :: "database \<Rightarrow> bool" where
  "no_orphan_search_rows db =
     (\<forall>s \<in> set (email_search db).
        \<forall>i. sr_email_id s = Some i \<longrightarrow> i \<in> set (map row_id (emails db)))"

definition live_emails_indexed :: "database \<Rightarrow> bool" where
  "live_emails_indexed db =
     (\<forall>e \<in> set (emails db).
        \<not> is_deleted (row_fields e)
          \<longrightarrow> Some (row_id e) \<in> set (map sr_email_id (email_search db)))"

section \<open>The change listener: deleted emails (api/webhook-server.js)\<close>

record webhook_payload =
  wp_type :: "string option"
  wp_accountId :: "string option"
  wp_emailId :: "string option"
  wp_mailboxId :: "string option"
  wp_changes :: "string list option"

text \<open>The value that \<open>.eq('fastmail_id', emailId)\<close> compares with; an absent id is sent as
  the text \<open>undefined\<close>.\<close>

definition eq_filter_value :: "string option \<Rightarrow> string" where
  "eq_filter_value v = (case v of None \<Rightarrow> ''undefined'' | Some s \<Rightarrow> s)"

text \<open>
  The effect of \<open>handleEmailDeleted\<close> on the store:
  \<open>update({ is_deleted: true, updated_at: now }).eq('fastmail_id', emailId)\<close>, where
  \<open>now\<close> is the clock of the listener. The result of the update is not inspected: an
  update that the database refuses goes unnoticed, and the handler logs success.
\<close>

definition handleEmailDeleted :: "webhook_payload \<Rightarrow> nat \<Rightarrow> database \<Rightarrow> database" where
  "handleEmailDeleted payload now db =
     snd (emails_update_where
            (\<lambda>r. fastmail_id (row_fields r) = Some (eq_filter_value (wp_emailId payload)))
            (\<lambda>r. r\<lparr> row_fields := (row_fields r)\<lparr> is_deleted := True \<rparr>, updated_at := now \<rparr>)
            db)"

section \<open>The JMAP client and the provider (lib/fastmail-client.js)\<close>

record jmap_session =
  sess_accountId :: "string option"
  sess_apiUrl :: "string option"
  sess_username :: "string option"

text \<open>An instance of \<open>FastmailMailbox\<close>, with the properties that are stored.\<close>

record fastmail_mailbox =
  fm_id :: "string option"
  fm_name :: "string option"
  fm_parentId :: "string option"
  fm_role :: "string option"
  fm_sortOrder :: "nat option"
  fm_totalEmails :: nat
  fm_unreadEmails :: nat

text \<open>The arguments of the response to \<open>Email/query\<close>: the ids and the state of the query.\<close>

record query_result =
  qr_ids :: "string list option"
  qr_queryState :: "string option"

text \<open>The requests that the client sends, and what comes back for a method call.\<close>

datatype jmap_call =
    SessionGet
  | MailboxGet
  | EmailQuery email_query
  | EmailGet "string option list"

datatype jmap_answer =
    MailboxList "fastmail_mailbox list option"
  | QueryResult query_result
  | EmailList "jmap_email list option"
  | NoMethodResponse

text \<open>
  The provider is a script. It answers the request that is sent after \<open>n\<close> earlier
  requests; \<open>Inl\<close> is a failed HTTP exchange with its message (a transport failure, a
  rejected credential, a rate limit), \<open>NoMethodResponse\<close> a response without an entry
  for the method call.
\<close>

record provider =
  answer_session :: "nat \<Rightarrow> string + jmap_session"
  answer_call :: "nat \<Rightarrow> jmap_call \<Rightarrow> string + jmap_answer"

record client_state =
  cl_apiToken :: "string option"
  cl_session :: "jmap_session option"
  cl_accountId :: "string option"

text \<open>
  The state that an engine operation works on: the store, the client object, and the
  requests sent to the provider so far, oldest first.
\<close>

record world =
  w_db :: database
  w_client :: client_state
  w_requests :: "jmap_call list"

text \<open>A string is falsy when it is absent or empty.\<close>

definition truthy :: "string option \<Rightarrow> bool" where
  "truthy s = (case s of None \<Rightarrow> False | Some t \<Rightarrow> t \<noteq> [])"

definition getSession :: "provider \<Rightarrow> world \<Rightarrow> (js_error + jmap_session) \<times> world" where
  "getSession p w =
     (if \<not> truthy (cl_apiToken (w_client w)) then (Inl (Error ''API token not set''), w)
      else
        (let n = length (w_requests w);
             w1 = w\<lparr> w_requests := w_requests w @ [SessionGet] \<rparr>
         in case answer_session p n of
              Inl msg \<Rightarrow> (Inl (Error (''Session fetch failed: '' @ msg)), w1)
            | Inr s \<Rightarrow>
                (Inr s, w1\<lparr> w_client := (w_client w1)
                              \<lparr> cl_session := Some s, cl_accountId := sess_accountId s \<rparr> \<rparr>)))"

definition validateToken :: "provider \<Rightarrow> world \<Rightarrow> bool \<times> world" where
  "validateToken p w =
     (case getSession p w of (Inl e, w1) \<Rightarrow> (False, w1) | (Inr s, w1) \<Rightarrow> (True, w1))"

text \<open>\<open>getAccountInfo()\<close>; of the object it returns only \<open>accountId\<close> is used.\<close>

definition getAccountInfo :: "world \<Rightarrow> string option" where
  "getAccountInfo w =
     (if cl_session (w_client w) = None \<or> \<not> truthy (cl_accountId (w_client w)) then None
      else cl_accountId (w_client w))"

text \<open>The session check at the head of \<open>makeJMAPCall\<close>; \<open>Some\<close> is the error thrown.\<close>

definition ensureSession :: "provider \<Rightarrow> world \<Rightarrow> js_error option \<times> world" where
  "ensureSession p w =
     (if cl_session (w_client w) = None
      then (case getSession p w of (Inl e, w1) \<Rightarrow> (Some e, w1) | (Inr s, w1) \<Rightarrow> (None, w1))
      else (None, w))"

text \<open>
  \<open>makeJMAPCall\<close>: fetch the session first if there is none, then post the request once.
  The client does not retry.
\<close>

definition makeJMAPCall :: "provider \<Rightarrow> jmap_call \<Rightarrow> world \<Rightarrow> (js_error + jmap_answer) \<times> world" where
  "makeJMAPCall p call w =
     (case ensureSession p w of
        (Some e, w1) \<Rightarrow> (Inl e, w1)
      | (None, w1) \<Rightarrow>
          (let n = length (w_requests w1);
               w2 = w1\<lparr> w_requests := w_requests w1 @ [call] \<rparr>
           in case answer_call p n call of
                Inl msg \<Rightarrow> (Inl (Error (''JMAP call failed: '' @ msg)), w2)
              | Inr a \<Rightarrow> (Inr a, w2)))"

text \<open>Reading \<open>methodResponse[0]\<close> of a response that \<open>find\<close> did not find.\<close>

definition TypeError_undefined :: js_error where
  "TypeError_undefined = Error ''Cannot read properties of undefined''"

definition getMailboxes :: "provider \<Rightarrow> world \<Rightarrow> (js_error + fastmail_mailbox list) \<times> world" where
  "getMailboxes p w =
     (case makeJMAPCall p MailboxGet w of
        (Inl e, w1) \<Rightarrow> (Inl e, w1)
      | (Inr a, w1) \<Rightarrow>
          (case a of
             MailboxList l \<Rightarrow> (Inr (or_default l []), w1)
           | _ \<Rightarrow> (Inl TypeError_undefined, w1)))"

text \<open>
  \<open>getEmails\<close>: one \<open>Email/query\<close> with the parameters built from the options, then one
  \<open>Email/get\<close> for the ids it returned. Of the query response only \<open>ids\<close> is read; the
  state that comes with it is dropped.
\<close>

definition getEmails ::
  "provider \<Rightarrow> getEmails_options \<Rightarrow> world \<Rightarrow> (js_error + fastmail_email list) \<times> world" where
  "getEmails p options w =
     (let queryParams = getEmails_queryParams (cl_accountId (w_client w)) options
      in case makeJMAPCall p (EmailQuery queryParams) w of
           (Inl e, w1) \<Rightarrow> (Inl e, w1)
         | (Inr a, w1) \<Rightarrow>
             (case a of
                QueryResult qr \<Rightarrow>
                  (let emailIds = or_default (qr_ids qr) []
                   in if emailIds = [] then (Inr [], w1)
                      else (case makeJMAPCall p (EmailGet (map Some emailIds)) w1 of
                              (Inl e, w2) \<Rightarrow> (Inl e, w2)
                            | (Inr b, w2) \<Rightarrow>
                                (case b of
                                   EmailList l \<Rightarrow> (Inr (map FastmailEmail (or_default l [])), w2)
                                 | _ \<Rightarrow> (Inl (Error ''Get emails failed: No response received''),
                                         w2))))
              | _ \<Rightarrow> (Inl (Error ''Email query failed: No response received''), w1)))"

definition getEmailById ::
  "provider \<Rightarrow> string option \<Rightarrow> world \<Rightarrow> (js_error + fastmail_email option) \<times> world" where
  "getEmailById p emailId w =
     (case makeJMAPCall p (EmailGet [emailId]) w of
        (Inl e, w1) \<Rightarrow> (Inl e, w1)
      | (Inr a, w1) \<Rightarrow>
          (case a of
             EmailList l \<Rightarrow>
               (case or_default l [] of
                  [] \<Rightarrow> (Inr None, w1)
                | d # rest \<Rightarrow> (Inr (Some (FastmailEmail d)), w1))
           | _ \<Rightarrow> (Inl TypeError_undefined, w1)))"


section \<open>Sync state functions (migration 003)\<close>

definition initialize_sync_state :: "string \<Rightarrow> string option \<Rightarrow> database \<Rightarrow> database" where
  "initialize_sync_state account_id_param initial_sync_token db =
     (if account_id_param \<in> set (map account_id (sync_state db))
      then db\<lparr> sync_state :=
                 map (\<lambda>s. if account_id s = account_id_param
                           then s\<lparr> last_sync_token :=
                                     (case initial_sync_token of
                                        None \<Rightarrow> last_sync_token s | Some t \<Rightarrow> Some t),
                                   last_sync_date := Some (db_now db),
                                   sync_status := IDLE,
                                   last_error := None,
                                   ss_updated_at := db_now db \<rparr>
                           else s) (sync_state db) \<rparr>
      else db\<lparr> sync_state := sync_state db @
                 [\<lparr> account_id = account_id_param, last_sync_token = initial_sync_token,
                    last_sync_date = Some (db_now db), total_emails_synced = 0,
                    last_error = None, sync_status = IDLE,
                    ss_created_at = db_now db, ss_updated_at = db_now db \<rparr>] \<rparr>)"

text \<open>
  \<open>update_sync_progress\<close>. Parameter \<open>emails_synced\<close> and column
  \<open>total_emails_synced\<close> are \<open>INTEGER\<close>s: a count or a sum beyond the range is refused
  with code 22003 and nothing is written.
\<close>

definition update_sync_progress ::
  "string \<Rightarrow> string option \<Rightarrow> nat \<Rightarrow> sync_status \<Rightarrow> database \<Rightarrow> pg_error + database" where
  "update_sync_progress account_id_param sync_token emails_synced sync_status_param db =
     (if int4_overflow emails_synced then Inl (PgError ''22003'')
      else if list_ex (\<lambda>s. account_id s = account_id_param
                            \<and> int4_overflow (total_emails_synced s + emails_synced)) (sync_state db)
      then Inl (PgError ''22003'')
      else if account_id_param \<in> set (map account_id (sync_state db))
      then Inr (db\<lparr> sync_state :=
                 map (\<lambda>s. if account_id s = account_id_param
                           then s\<lparr> last_sync_token := sync_token,
                                   last_sync_date := Some (db_now db),
                                   total_emails_synced := total_emails_synced s + emails_synced,
                                   sync_status := sync_status_param,
                                   last_error := None,
                                   ss_updated_at := db_now db \<rparr>
                           else s) (sync_state db) \<rparr>)
      else Inr (db\<lparr> sync_state := sync_state db @
                 [\<lparr> account_id = account_id_param, last_sync_token = sync_token,
                    last_sync_date = Some (db_now db), total_emails_synced = emails_synced,
                    last_error = None, sync_status = sync_status_param,
                    ss_created_at = db_now db, ss_updated_at = db_now db \<rparr>] \<rparr>))"

text \<open>
  \<open>await supabase.rpc(...)\<close> where the result is not inspected: a call that the database
  refuses leaves the store as it was and goes unnoticed.
\<close>

definition rpc_unchecked :: "pg_error + database \<Rightarrow> database \<Rightarrow> database" where
  "rpc_unchecked result db = (case result of Inl err \<Rightarrow> db | Inr db1 \<Rightarrow> db1)"

definition record_sync_error :: "string \<Rightarrow> string \<Rightarrow> database \<Rightarrow> database" where
  "record_sync_error account_id_param error_message db =
     (if account_id_param \<in> set (map account_id (sync_state db))
      then db\<lparr> sync_state :=
                 map (\<lambda>s. if account_id s = account_id_param
                           then s\<lparr> last_error := Some error_message,
                                   sync_status := ERROR,
                                   ss_updated_at := db_now db \<rparr>
                           else s) (sync_state db) \<rparr>
      else db\<lparr> sync_state := sync_state db @
                 [\<lparr> account_id = account_id_param, last_sync_token = None,
                    last_sync_date = None, total_emails_synced = 0,
                    last_error = Some error_message, sync_status = ERROR,
                    ss_created_at = db_now db, ss_updated_at = db_now db \<rparr>] \<rparr>)"

definition reset_sync_state :: "string \<Rightarrow> string option \<Rightarrow> database \<Rightarrow> database" where
  "reset_sync_state account_id_param reset_token db =
     (if account_id_param \<in> set (map account_id (sync_state db))
      then db\<lparr> sync_state :=
                 map (\<lambda>s. if account_id s = account_id_param
                           then s\<lparr> last_sync_token := reset_token,
                                   last_sync_date := None,
                                   total_emails_synced := 0,
                                   last_error := None,
                                   sync_status := IDLE,
                                   ss_updated_at := db_now db \<rparr>
                           else s) (sync_state db) \<rparr>
      else db\<lparr> sync_state := sync_state db @
                 [\<lparr> account_id = account_id_param, last_sync_token = reset_token,
                    last_sync_date = None, total_emails_synced = 0,
                    last_error = None, sync_status = IDLE,
                    ss_created_at = db_now db, ss_updated_at = db_now db \<rparr>] \<rparr>)"

text \<open>\<open>getSyncState\<close>: the row of the account, \<open>null\<close> unless exactly one row comes back.\<close>

definition getSyncState :: "string \<Rightarrow> database \<Rightarrow> sync_row option" where
  "getSyncState accountId db =
     (case filter (\<lambda>s. account_id s = accountId) (sync_state db) of
        [s] \<Rightarrow> Some s
      | _ \<Rightarrow> None)"

section \<open>Mailboxes in the storage service\<close>

text \<open>\<open>StoredMailbox.fromFastmailMailbox\<close> followed by \<open>toSupabaseRow\<close>.\<close>

definition mailbox_toSupabaseRow :: "fastmail_mailbox \<Rightarrow> mailbox_fields" where
  "mailbox_toSupabaseRow m =
     \<lparr> mb_fastmail_id = fm_id m, mb_name = fm_name m, mb_parent_id = fm_parentId m,
       mb_role = fm_role m, mb_sort_order = fm_sortOrder m,
       mb_total_emails = fm_totalEmails m, mb_unread_emails = fm_unreadEmails m \<rparr>"

text \<open>
  One round of the loop of \<open>storeMailboxes\<close>, as for emails: \<open>fastmail_id\<close> is
  \<open>UNIQUE NOT NULL\<close>, \<open>name\<close> is \<open>NOT NULL\<close> and the counters are \<open>INTEGER\<close>s; an insert
  gives the column of an absent \<open>sortOrder\<close> its default 0, an update leaves the columns
  of absent properties as they are.
\<close>

definition storeMailboxes_step :: "fastmail_mailbox \<Rightarrow> database \<Rightarrow> mailbox_row option \<times> database" where
  "storeMailboxes_step mailbox db =
     (let row = mailbox_toSupabaseRow mailbox
      in if mb_fastmail_id row = None \<or> mb_name row = None
            \<or> int4_overflow (mb_total_emails row) \<or> int4_overflow (mb_unread_emails row)
            \<or> int4_overflow (or_default (mb_sort_order row) 0)
         then (None, db)
         else
           (case filter (\<lambda>m. mb_fastmail_id (mbr_fields m) = mb_fastmail_id row) (mailboxes db) of
              [] \<Rightarrow>
                (let NEW = \<lparr> mbr_id = next_uuid db,
                             mbr_fields = row
                               \<lparr> mb_sort_order := Some (or_default (mb_sort_order row) 0) \<rparr>,
                             mbr_created_at = db_now db, mbr_updated_at = db_now db \<rparr>
                 in (Some NEW, db\<lparr> mailboxes := mailboxes db @ [NEW],
                                  next_uuid := Suc (next_uuid db) \<rparr>))
            | [old] \<Rightarrow>
                (let data = old\<lparr> mbr_fields := row
                                   \<lparr> mb_parent_id := keep_if_absent (mb_parent_id row)
                                                      (mb_parent_id (mbr_fields old)),
                                     mb_role := keep_if_absent (mb_role row)
                                                  (mb_role (mbr_fields old)),
                                     mb_sort_order := keep_if_absent (mb_sort_order row)
                                                        (mb_sort_order (mbr_fields old)) \<rparr>,
                                 mbr_updated_at := db_now db \<rparr>
                 in (Some data,
                     db\<lparr> mailboxes :=
                           map (\<lambda>m. if mb_fastmail_id (mbr_fields m) = mb_fastmail_id row
                                     then data else m) (mailboxes db) \<rparr>))
            | _ \<Rightarrow> (None, db)))"

fun storeMailboxes :: "fastmail_mailbox list \<Rightarrow> database \<Rightarrow> mailbox_row list \<times> database" where
  "storeMailboxes [] db = ([], db)"
| "storeMailboxes (mailbox # rest) db =
     (case storeMailboxes_step mailbox db of
        (written, db1) \<Rightarrow>
          (case storeMailboxes rest db1 of
             (results, db2) \<Rightarrow>
               ((case written of None \<Rightarrow> results | Some data \<Rightarrow> data # results), db2)))"

section \<open>Configuration (index.js)\<close>

text \<open>
  The environment variables that \<open>loadConfig\<close> reads into the settings of interest here;
  a number is \<open>None\<close> when the variable is absent or \<open>parseInt\<close> gives \<open>NaN\<close>.
\<close>

record environment =
  env_SYNC_INTERVAL_MINUTES :: "nat option"
  env_BATCH_SIZE :: "nat option"
  env_MAX_RETRIES :: "nat option"
  env_RETRY_DELAY_MS :: "nat option"
  env_WEBHOOK_SECRET :: "string option"

record sync_settings =
  intervalMinutes :: nat
  sync_batchSize :: nat
  maxRetries :: nat
  retryDelayMs :: nat

text \<open>
  The configuration object handed to the services. \<open>loadConfig\<close> fills \<open>config.sync\<close> and
  \<open>config.webhook.secret\<close>; the sync service reads \<open>config.batchSize\<close> and the change
  listener reads \<open>config.webhookSecret\<close>.
\<close>

record service_config =
  cfg_sync :: "sync_settings option"
  cfg_webhook_secret :: "string option"
  cfg_batchSize :: "nat option"
  cfg_webhookSecret :: "string option"

text \<open>\<open>parseInt(x) || d\<close>: \<open>NaN\<close> and 0 give the default.\<close>

definition number_or :: "nat option \<Rightarrow> nat \<Rightarrow> nat" where
  "number_or x d = (case x of None \<Rightarrow> d | Some n \<Rightarrow> if n = 0 then d else n)"

definition loadConfig :: "environment \<Rightarrow> service_config" where
  "loadConfig env =
     \<lparr> cfg_sync = Some \<lparr> intervalMinutes = number_or (env_SYNC_INTERVAL_MINUTES env) 15,
                         sync_batchSize = number_or (env_BATCH_SIZE env) 100,
                         maxRetries = number_or (env_MAX_RETRIES env) 3,
                         retryDelayMs = number_or (env_RETRY_DELAY_MS env) 5000 \<rparr>,
       cfg_webhook_secret = env_WEBHOOK_SECRET env,
       cfg_batchSize = None,
       cfg_webhookSecret = None \<rparr>"

section \<open>The sync service (services/email-sync.js)\<close>

record sync_stats =
  st_totalEmails :: nat
  st_newEmails :: nat
  st_updatedEmails :: nat
  st_deletedEmails :: nat
  st_errors :: "string list"

text \<open>\<open>new EmailSyncStats({})\<close>.\<close>

definition EmailSyncStats :: sync_stats where
  "EmailSyncStats =
     \<lparr> st_totalEmails = 0, st_newEmails = 0, st_updatedEmails = 0, st_deletedEmails = 0,
       st_errors = [] \<rparr>"

definition error_message :: "js_error \<Rightarrow> string" where
  "error_message e = (case e of Error m \<Rightarrow> m)"

definition addError :: "js_error \<Rightarrow> sync_stats \<Rightarrow> sync_stats" where
  "addError e stats = stats\<lparr> st_errors := st_errors stats @ [error_message e] \<rparr>"

text \<open>
  \<open>stats.lastSyncToken\<close>: class \<open>EmailSyncStats\<close> has no such property and nothing
  assigns one, so reading it gives \<open>undefined\<close>.
\<close>

definition stats_lastSyncToken :: "sync_stats \<Rightarrow> string option" where
  "stats_lastSyncToken stats = None"

text \<open>\<open>a || b\<close> on possibly absent strings.\<close>

definition string_or :: "string option \<Rightarrow> string option \<Rightarrow> string option" where
  "string_or a b = (if truthy a then a else b)"

text \<open>
  \<open>chunkArray\<close>. The chunk size is never 0 where it is called (\<open>batchSize\<close> is
  \<open>config.batchSize || 100\<close>); with a chunk size of 0 the loop of the source would not
  end, and the model gives no chunks.
\<close>

function chunkArray :: "'a list \<Rightarrow> nat \<Rightarrow> 'a list list" where
  "chunkArray array chunkSize =
     (if chunkSize = 0 \<or> array = [] then []
      else take chunkSize array # chunkArray (drop chunkSize array) chunkSize)"
  by pat_completeness auto
termination
  by (relation "measure (\<lambda>(array, chunkSize). length array)") auto

text \<open>\<open>processEmailBatch\<close>: store the batch, count every email of it as new.\<close>

definition processEmailBatch :: "fastmail_email list \<Rightarrow> world \<times> sync_stats \<Rightarrow> world \<times> sync_stats" where
  "processEmailBatch batch ws =
     (case ws of
        (w, stats) \<Rightarrow>
          (w\<lparr> w_db := snd (storeEmails batch (w_db w)) \<rparr>,
           stats\<lparr> st_newEmails := st_newEmails stats + length batch,
                  st_totalEmails := st_totalEmails stats + length batch \<rparr>))"

text \<open>
  The \<open>while (hasMore)\<close> loop of \<open>syncEmails\<close>. Every round asks for the emails since
  \<open>lastSyncToken\<close>, the token the function was called with; the counter \<open>offset\<close> of the
  source is only logged. A run that never leaves the loop has the value \<open>None\<close>.
\<close>

partial_function (option) syncEmails_loop ::
  "provider \<Rightarrow> nat \<Rightarrow> string option \<Rightarrow> world \<times> sync_stats
     \<Rightarrow> ((js_error + unit) \<times> world \<times> sync_stats) option" where
  "syncEmails_loop p batchSize lastSyncToken ws =
     (case getEmails p (syncEmails_options lastSyncToken batchSize) (fst ws) of
        (Inl e, w1) \<Rightarrow> Some (Inl e, w1, snd ws)
      | (Inr fetched, w1) \<Rightarrow>
          if fetched = [] then Some (Inr (), w1, snd ws)
          else
            (let ws2 = fold processEmailBatch (chunkArray fetched batchSize) (w1, snd ws)
             in if length fetched < batchSize then Some (Inr (), fst ws2, snd ws2)
                else syncEmails_loop p batchSize lastSyncToken ws2))"

declare syncEmails_loop.simps [code]

text \<open>\<open>syncEmails\<close>: the loop inside \<open>try\<close>; an error is added to the stats and thrown on.\<close>

definition syncEmails ::
  "provider \<Rightarrow> service_config \<Rightarrow> string option \<Rightarrow> world \<times> sync_stats
     \<Rightarrow> ((js_error + unit) \<times> world \<times> sync_stats) option" where
  "syncEmails p config lastSyncToken ws =
     (case syncEmails_loop p (number_or (cfg_batchSize config) 100) lastSyncToken ws of
        None \<Rightarrow> None
      | Some (Inl e, w1, stats1) \<Rightarrow> Some (Inl e, w1, addError e stats1)
      | Some (Inr u, w1, stats1) \<Rightarrow> Some (Inr (), w1, stats1))"

definition syncMailboxes ::
  "provider \<Rightarrow> world \<times> sync_stats \<Rightarrow> (js_error + unit) \<times> world \<times> sync_stats" where
  "syncMailboxes p ws =
     (case getMailboxes p (fst ws) of
        (Inl e, w1) \<Rightarrow> (Inl e, w1, addError e (snd ws))
      | (Inr fetched, w1) \<Rightarrow>
          if fetched = [] then (Inr (), w1, snd ws)
          else (Inr (), w1\<lparr> w_db := snd (storeMailboxes fetched (w_db w1)) \<rparr>, snd ws))"

text \<open>The \<open>catch\<close> block of \<open>performSync\<close> once the account is known: record the error.\<close>

definition recordFailure :: "string \<Rightarrow> js_error \<Rightarrow> world \<Rightarrow> world" where
  "recordFailure accountId e w =
     w\<lparr> w_db := record_sync_error accountId (error_message e) (w_db w) \<rparr>"

text \<open>
  \<open>performSync\<close>, one tick. Each step is run once; \<open>config.sync.maxRetries\<close> and
  \<open>config.sync.retryDelayMs\<close> are not read. A failure before the account is known is
  thrown without a record on the cursor. The results of the calls to
  \<open>update_sync_progress\<close> are not inspected.
\<close>

definition performSync :: "provider \<Rightarrow> service_config \<Rightarrow> world \<Rightarrow> ((js_error + unit) \<times> world) option" where
  "performSync p config w =
     (case validateToken p w of
        (False, w1) \<Rightarrow> Some (Inl (Error ''Invalid Fastmail access token''), w1)
      | (True, w1) \<Rightarrow>
          (case getAccountInfo w1 of
             None \<Rightarrow> Some (Inl (Error ''Unable to get Fastmail account info''), w1)
           | Some accountId \<Rightarrow>
               (let db1 = (case getSyncState accountId (w_db w1) of
                             None \<Rightarrow> initialize_sync_state accountId None (w_db w1)
                           | Some s \<Rightarrow> w_db w1)
                in case getSyncState accountId db1 of
                     None \<Rightarrow>
                       Some (Inl TypeError_undefined,
                             recordFailure accountId TypeError_undefined (w1\<lparr> w_db := db1 \<rparr>))
                   | Some syncState \<Rightarrow>
                       (let w2 = w1\<lparr> w_db := rpc_unchecked
                                                (update_sync_progress accountId
                                                   (last_sync_token syncState) 0 SYNCING db1)
                                                db1 \<rparr>
                        in case syncMailboxes p (w2, EmailSyncStats) of
                             (Inl e, w3, stats3) \<Rightarrow> Some (Inl e, recordFailure accountId e w3)
                           | (Inr u, w3, stats3) \<Rightarrow>
                               (case syncEmails p config (last_sync_token syncState) (w3, stats3) of
                                  None \<Rightarrow> None
                                | Some (Inl e, w4, stats4) \<Rightarrow>
                                    Some (Inl e, recordFailure accountId e w4)
                                | Some (Inr u, w4, stats4) \<Rightarrow>
                                    Some (Inr (),
                                      w4\<lparr> w_db := rpc_unchecked
                                               (update_sync_progress accountId
                                                  (string_or (stats_lastSyncToken stats4)
                                                     (last_sync_token syncState))
                                                  (st_newEmails stats4 + st_updatedEmails stats4)
                                                  COMPLETED (w_db w4))
                                               (w_db w4) \<rparr>))))))"

text \<open>\<open>syncEmailById\<close>: fetch one email and store it; an unknown id is not an error.\<close>

definition syncEmailById :: "provider \<Rightarrow> string option \<Rightarrow> world \<Rightarrow> (js_error + unit) \<times> world" where
  "syncEmailById p emailId w =
     (case getEmailById p emailId w of
        (Inl e, w1) \<Rightarrow> (Inl e, w1)
      | (Inr None, w1) \<Rightarrow> (Inr (), w1)
      | (Inr (Some email), w1) \<Rightarrow>
          (case storeEmail email (w_db w1) of
             (Inl e, db2) \<Rightarrow> (Inl e, w1\<lparr> w_db := db2 \<rparr>)
           | (Inr data, db2) \<Rightarrow> (Inr (), w1\<lparr> w_db := db2 \<rparr>)))"

section \<open>The change listener (api/webhook-server.js)\<close>

record webhook_request =
  req_signature :: "string option"
  req_body :: string

record http_response =
  resp_status :: nat
  resp_json :: string

text \<open>
  \<open>Buffer.from(text, 'hex')\<close>: two hex digits give a byte, and decoding stops at the
  first pair that is not two hex digits (a last single character is dropped).
\<close>

definition hex_digit :: "char \<Rightarrow> nat option" where
  "hex_digit c =
     (let n = (of_char c :: nat)
      in if 48 \<le> n \<and> n \<le> 57 then Some (n - 48)
         else if 97 \<le> n \<and> n \<le> 102 then Some (n - 87)
         else if 65 \<le> n \<and> n \<le> 70 then Some (n - 55)
         else None)"

fun buffer_from_hex :: "string \<Rightarrow> nat list" where
  "buffer_from_hex (a # b # rest) =
     (case (hex_digit a, hex_digit b) of
        (Some x, Some y) \<Rightarrow> (16 * x + y) # buffer_from_hex rest
      | _ \<Rightarrow> [])"
| "buffer_from_hex rest = []"

text \<open>\<open>text.replace(pattern, '')\<close> with a text pattern: the first occurrence is removed.\<close>

fun remove_first :: "string \<Rightarrow> string \<Rightarrow> string" where
  "remove_first pattern [] = []"
| "remove_first pattern (c # cs) =
     (if take (length pattern) (c # cs) = pattern then drop (length pattern) (c # cs)
      else c # remove_first pattern cs)"

text \<open>\<open>crypto.timingSafeEqual\<close> throws when the two buffers differ in length.\<close>

definition timingSafeEqual :: "nat list \<Rightarrow> nat list \<Rightarrow> js_error + bool" where
  "timingSafeEqual a b =
     (if length a \<noteq> length b
      then Inl (Error ''Input buffers must have the same byte length'')
      else Inr (a = b))"

text \<open>
  \<open>verifyWebhookSignature\<close>. The keyed digest of Node's \<open>crypto\<close> is the parameter
  \<open>hmac\<close>: secret and body to the hex text of the digest.
\<close>

definition verifyWebhookSignature ::
  "(string \<Rightarrow> string \<Rightarrow> string) \<Rightarrow> service_config \<Rightarrow> webhook_request \<Rightarrow> js_error + bool" where
  "verifyWebhookSignature hmac config req =
     (case req_signature req of
        None \<Rightarrow> Inr False
      | Some signature \<Rightarrow>
          if signature = [] then Inr False
          else
            (case cfg_webhookSecret config of
               None \<Rightarrow> Inr False
             | Some secret \<Rightarrow>
                 if secret = [] then Inr False
                 else
                   (let expectedSignature = hmac secret (req_body req);
                        providedSignature = remove_first ''sha256='' signature
                    in timingSafeEqual (buffer_from_hex expectedSignature)
                         (buffer_from_hex providedSignature))))"

text \<open>The handlers of the four event types; each works through the sync service.\<close>

definition handleEmailReceived :: "provider \<Rightarrow> webhook_payload \<Rightarrow> world \<Rightarrow> (js_error + unit) \<times> world" where
  "handleEmailReceived p payload w = syncEmailById p (wp_emailId payload) w"

text \<open>\<open>Object.keys(changes)\<close> throws when the payload has no \<open>changes\<close>.\<close>

definition handleEmailUpdated :: "provider \<Rightarrow> webhook_payload \<Rightarrow> world \<Rightarrow> (js_error + unit) \<times> world" where
  "handleEmailUpdated p payload w =
     (case wp_changes payload of
        None \<Rightarrow> (Inl (Error ''Cannot convert undefined or null to object''), w)
      | Some changes \<Rightarrow> syncEmailById p (wp_emailId payload) w)"

definition handleMailboxUpdated ::
  "provider \<Rightarrow> service_config \<Rightarrow> world \<Rightarrow> ((js_error + unit) \<times> world) option" where
  "handleMailboxUpdated p config w = performSync p config w"

text \<open>
  \<open>handleFastmailWebhook\<close>. \<open>parse\<close> stands for \<open>JSON.parse\<close> and the reading of the
  properties of the payload (\<open>None\<close> when it throws), \<open>now\<close> is the clock of the
  listener. Everything runs inside one \<open>try\<close>: whatever is thrown, by the verification
  too, is answered with status 500.
\<close>

definition handleFastmailWebhook ::
  "(string \<Rightarrow> string \<Rightarrow> string) \<Rightarrow> (string \<Rightarrow> webhook_payload option) \<Rightarrow> provider
     \<Rightarrow> service_config \<Rightarrow> nat \<Rightarrow> webhook_request \<Rightarrow> world \<Rightarrow> (http_response \<times> world) option" where
  "handleFastmailWebhook hmac parse p config now req w =
     (case verifyWebhookSignature hmac config req of
        Inl e \<Rightarrow>
          Some (\<lparr> resp_status = 500, resp_json = ''Webhook processing failed'' \<rparr>, w)
      | Inr False \<Rightarrow> Some (\<lparr> resp_status = 401, resp_json = ''Invalid signature'' \<rparr>, w)
      | Inr True \<Rightarrow>
          (case parse (req_body req) of
             None \<Rightarrow>
               Some (\<lparr> resp_status = 500, resp_json = ''Webhook processing failed'' \<rparr>, w)
           | Some payload \<Rightarrow>
               (case (if wp_type payload = Some ''email.received''
                      then Some (handleEmailReceived p payload w)
                      else if wp_type payload = Some ''email.updated''
                      then Some (handleEmailUpdated p payload w)
                      else if wp_type payload = Some ''email.deleted''
                      then Some (Inr (), w\<lparr> w_db := handleEmailDeleted payload now (w_db w) \<rparr>)
                      else if wp_type payload = Some ''mailbox.updated''
                      then handleMailboxUpdated p config w
                      else Some (Inr (), w)) of
                  None \<Rightarrow> None
                | Some (Inl e, w1) \<Rightarrow>
                    Some (\<lparr> resp_status = 500, resp_json = ''Webhook processing failed'' \<rparr>, w1)
                | Some (Inr u, w1) \<Rightarrow>
                    Some (\<lparr> resp_status = 200, resp_json = ''success'' \<rparr>, w1))))"

section \<open>Sample data\<close>

text \<open>A provider record with the given id, subject, text body and keywords.\<close>

definition sample_email :: "string \<Rightarrow> string \<Rightarrow> string \<Rightarrow> keyword_map \<Rightarrow> jmap_email" where
  "sample_email i subj txt kw =
     \<lparr> je_id = Some i, je_threadId = Some ''t1'', je_subject = Some subj,
       je_from = Some [\<lparr> addr_name = None, addr_email = ''a@example.org'' \<rparr>],
       je_to = None, je_cc = None, je_bcc = None, je_replyTo = None,
       je_sentAt = None, je_receivedAt = Some 7,
       je_messageId = None, je_inReplyTo = None, je_references = None,
       je_bodyValues = Some [''textBody'' \<mapsto> Some txt],
       je_attachments = None, je_keywords = Some kw, je_size = Some 3 \<rparr>"

definition empty_database :: database where
  "empty_database =
     \<lparr> emails = [], email_search = [], mailboxes = [], sync_state = [],
       next_uuid = 0, db_now = 1000 \<rparr>"

text \<open>The provider record \<open>e2\<close>, and a webhook payload that reports it deleted.\<close>

definition e2 :: jmap_email where
  "e2 = sample_email ''e2'' ''weekend plans'' ''hi'' Map.empty"

definition deleted_e2 :: webhook_payload where
  "deleted_e2 =
     \<lparr> wp_type = Some ''email.deleted'', wp_accountId = Some ''u1'',
       wp_emailId = Some ''e2'', wp_mailboxId = None, wp_changes = None \<rparr>"

definition parse_deleted_e2 :: "string \<Rightarrow> webhook_payload option" where
  "parse_deleted_e2 body = Some deleted_e2"

text \<open>A fresh engine: an empty store, a client with a token and no session yet.\<close>

definition fresh_world :: world where
  "fresh_world =
     \<lparr> w_db = empty_database,
       w_client = \<lparr> cl_apiToken = Some ''token'', cl_session = None, cl_accountId = None \<rparr>,
       w_requests = [] \<rparr>"

definition sample_session :: jmap_session where
  "sample_session =
     \<lparr> sess_accountId = Some ''u1'', sess_apiUrl = Some ''https://api.example.org/jmap'',
       sess_username = Some ''user'' \<rparr>"

definition inbox :: fastmail_mailbox where
  "inbox =
     \<lparr> fm_id = Some ''m1'', fm_name = Some ''Inbox'', fm_parentId = None,
       fm_role = Some ''inbox'', fm_sortOrder = Some 1, fm_totalEmails = 1,
       fm_unreadEmails = 1 \<rparr>"

text \<open>
  A provider whose mailbox holds the one email \<open>e1\<close>: every query returns its id together
  with the state \<open>s1\<close>.
\<close>

definition provider_with_e1 :: provider where
  "provider_with_e1 =
     \<lparr> answer_session = (\<lambda>n. Inr sample_session),
       answer_call = (\<lambda>n call.
         case call of
           SessionGet \<Rightarrow> Inr NoMethodResponse
         | MailboxGet \<Rightarrow> Inr (MailboxList (Some [inbox]))
         | EmailQuery q \<Rightarrow>
             Inr (QueryResult \<lparr> qr_ids = Some [''e1''], qr_queryState = Some ''s1'' \<rparr>)
         | EmailGet ids \<Rightarrow>
             Inr (EmailList (Some [sample_email ''e1'' ''Privacy Policy'' ''hello'' Map.empty]))) \<rparr>"

text \<open>The same provider behind a connection that fails once, on the second request.\<close>

definition provider_failing_once :: provider where
  "provider_failing_once =
     provider_with_e1
       \<lparr> answer_call := (\<lambda>n call. if n = 1 then Inl ''ECONNRESET''
                                   else answer_call provider_with_e1 n call) \<rparr>"

definition default_environment :: environment where
  "default_environment =
     \<lparr> env_SYNC_INTERVAL_MINUTES = None, env_BATCH_SIZE = None, env_MAX_RETRIES = None,
       env_RETRY_DELAY_MS = None, env_WEBHOOK_SECRET = Some ''secret'' \<rparr>"

text \<open>A configuration whose batch size the sync service reads: one email per pull.\<close>

definition config_batch_of_one :: service_config where
  "config_batch_of_one = (loadConfig default_environment)\<lparr> cfg_batchSize := Some 1 \<rparr>"

text \<open>
  A configuration object with the property \<open>webhookSecret\<close> that the change listener
  reads; \<open>loadConfig\<close> gives no such object. A digest function that can be run (it is no
  digest: the 64 hex digits are the hex text of the first bytes of secret and body,
  padded with zeros), and a request that carries the digest of its body under a secret.
\<close>

definition config_with_secret :: service_config where
  "config_with_secret = (loadConfig default_environment)\<lparr> cfg_webhookSecret := Some ''secret'' \<rparr>"

definition hex_of_nibble :: "nat \<Rightarrow> char" where
  "hex_of_nibble n = (''0123456789abcdef'' ! (n mod 16))"

definition sample_hmac :: "string \<Rightarrow> string \<Rightarrow> string" where
  "sample_hmac secret body =
     take 64 (concat (map (\<lambda>c. [hex_of_nibble ((of_char c :: nat) div 16),
                                 hex_of_nibble ((of_char c :: nat) mod 16)]) (secret @ body))
              @ replicate 64 (CHR ''0''))"

definition signed_request :: "string \<Rightarrow> string \<Rightarrow> webhook_request" where
  "signed_request secret body =
     \<lparr> req_signature = Some (''sha256='' @ sample_hmac secret body), req_body = body \<rparr>"

definition parse_nothing :: "string \<Rightarrow> webhook_payload option" where
  "parse_nothing body = None"

text \<open>The fresh engine once it holds a session.\<close>

definition connected_world :: world where
  "connected_world =
     fresh_world\<lparr> w_client := \<lparr> cl_apiToken = Some ''token'', cl_session = Some sample_session,
                                 cl_accountId = Some ''u1'' \<rparr> \<rparr>"

text \<open>
  The provider with \<open>e1\<close> seen through a window: from the fifth request on, its queries
  return no ids (the state is still \<open>s1\<close>).
\<close>

definition provider_then_empty :: provider where
  "provider_then_empty =
     provider_with_e1
       \<lparr> answer_call := (\<lambda>n call.
            case call of
              EmailQuery q \<Rightarrow>
                if 4 \<le> n
                then Inr (QueryResult \<lparr> qr_ids = Some [], qr_queryState = Some ''s1'' \<rparr>)
                else answer_call provider_with_e1 n call
            | _ \<Rightarrow> answer_call provider_with_e1 n call) \<rparr>"

text \<open>
  A provider whose mailbox holds a hundred emails: every query returns their ids, and
  every \<open>Email/get\<close> the hundred records.
\<close>

definition hundred_emails :: "jmap_email list" where
  "hundred_emails = replicate 100 (sample_email ''e1'' ''Privacy Policy'' ''hello'' Map.empty)"

definition provider_with_hundred :: provider where
  "provider_with_hundred =
     \<lparr> answer_session = (\<lambda>n. Inr sample_session),
       answer_call = (\<lambda>n call.
         case call of
           SessionGet \<Rightarrow> Inr NoMethodResponse
         | MailboxGet \<Rightarrow> Inr (MailboxList (Some [inbox]))
         | EmailQuery q \<Rightarrow>
             Inr (QueryResult \<lparr> qr_ids = Some (replicate 100 ''e1''),
                                qr_queryState = Some ''s1'' \<rparr>)
         | EmailGet ids \<Rightarrow> Inr (EmailList (Some hundred_emails))) \<rparr>"

chapter \<open>Properties\<close>

section \<open>Conversion of provider records\<close>

lemma keyword_flag_iff: "keyword_flag kw k = (kw k = Some True)"
  by (cases "kw k") (simp_all add: keyword_flag_def)

section \<open>Token encryption\<close>

text \<open>
  Claim C7. For every OAuth token, decrypting the stored result of encrypting it returns
  the original access token and refresh token strings unchanged, for any cipher whose
  decryption inverts its encryption and whose output for a nonempty text is nonempty (a
  padded block cipher); a token without a refresh token comes back with the empty string
  in its place.
\<close>

theorem decryptToken_encryptToken:
  assumes inv: "\<forall>k p. decipher k (cipher k p) = Inr p"
    and nonempty: "\<forall>k p. p \<noteq> [] \<longrightarrow> cipher k p \<noteq> []"
  shows "decryptToken decipher encKey
           (storeToken_row acct (encryptToken cipher encKey token) token)
         = Inr \<lparr> dec_accessToken = tok_accessToken token,
                 dec_refreshToken = or_default (tok_refreshToken token) [],
                 dec_tokenType = tok_tokenType token,
                 dec_expiresAt = tok_expiresAt token,
                 dec_scope = tok_scope token \<rparr>"
proof (cases "tok_refreshToken token")
  case None
  with inv show ?thesis
    by (simp add: decryptToken_def storeToken_row_def encryptToken_def Let_def or_default_def)
next
  case (Some r)
  show ?thesis
  proof (cases "r = []")
    case True
    with Some inv show ?thesis
      by (simp add: decryptToken_def storeToken_row_def encryptToken_def Let_def
          or_default_def)
  next
    case False
    then have "cipher (encryption_key encKey) r \<noteq> []"
      using nonempty by blast
    with Some False inv show ?thesis
      by (simp add: decryptToken_def storeToken_row_def encryptToken_def Let_def
          or_default_def)
  qed
qed

lemma prefix_decipher_cipher: "prefix_decipher k (prefix_cipher k p) = Inr p"
  by (simp add: prefix_decipher_def prefix_cipher_def)

lemma prefix_cipher_nonempty: "p \<noteq> [] \<Longrightarrow> prefix_cipher k p \<noteq> []"
  by (simp add: prefix_cipher_def)

theorem decryptToken_encryptToken_witness:
  "decryptToken prefix_decipher (Some ''k1'')
     (storeToken_row ''acct''
        (encryptToken prefix_cipher (Some ''k1'')
           \<lparr> tok_accessToken = ''at'', tok_refreshToken = Some ''rt'',
             tok_tokenType = ''bearer'', tok_expiresAt = 10, tok_scope = None \<rparr>)
        \<lparr> tok_accessToken = ''at'', tok_refreshToken = Some ''rt'',
          tok_tokenType = ''bearer'', tok_expiresAt = 10, tok_scope = None \<rparr>)
   = Inr \<lparr> dec_accessToken = ''at'', dec_refreshToken = ''rt'',
           dec_tokenType = ''bearer'', dec_expiresAt = 10, dec_scope = None \<rparr>"
  using decryptToken_encryptToken [of prefix_decipher prefix_cipher "Some ''k1''" "''acct''"
      "\<lparr> tok_accessToken = ''at'', tok_refreshToken = Some ''rt'',
         tok_tokenType = ''bearer'', tok_expiresAt = 10, tok_scope = None \<rparr>"]
  by (simp add: prefix_decipher_cipher prefix_cipher_nonempty or_default_def)

section \<open>Email queries\<close>

text \<open>
  Claim C9. The email queries of the sync path are said to carry no sort parameter. The
  options that \<open>syncEmails\<close> passes leave \<open>sort\<close> out, and the default of \<open>getEmails\<close>
  then fills it in: the \<open>Email/query\<close> call that is sent sorts by descending date,
  whatever the token and the batch size.
\<close>

theorem syncEmails_query_carries_default_sort:
  "q_sort (getEmails_queryParams accountId (syncEmails_options lastSyncToken batchSize))
     = [\<lparr> sort_property = ''date'', sort_isAscending = False \<rparr>]"
  by (simp add: getEmails_queryParams_def syncEmails_options_def Let_def or_default_def)

section \<open>Writes to the emails table\<close>

lemma upsert_search_refused:
  "upsert_search eid content rows = Inl (PgError ''42P10'')"
  by (simp add: upsert_search_def email_search_unique_columns_def)

lemma trigger_refused:
  "update_email_search_vector NEW db = Inl (PgError ''42P10'')"
  by (simp add: update_email_search_vector_def upsert_search_refused)

lemma for_each_row_trigger_cases:
  "for_each_row_trigger rows db = (if rows = [] then Inr db else Inl (PgError ''42P10''))"
  by (cases rows) (simp_all add: trigger_refused)

lemma emails_insert_refused: "\<exists>err. emails_insert f db = (Inl err, db)"
  by (simp add: emails_insert_def Let_def trigger_refused)

lemma map_if_no_match:
  "filter P xs = [] \<Longrightarrow> map (\<lambda>x. if P x then f x else x) xs = xs"
  by (induction xs) (auto split: if_splits)

lemma emails_update_where_cases:
  "emails_update_where cond change db
     = (if filter cond (emails db) = [] then (Inr [], db) else (Inl (PgError ''42P10''), db))"
proof (cases "filter cond (emails db) = []")
  case True
  then show ?thesis
    by (simp add: emails_update_where_def Let_def map_if_no_match)
next
  case False
  then show ?thesis
    by (simp add: emails_update_where_def Let_def for_each_row_trigger_cases)
qed

lemma emails_update_single_refused: "\<exists>err. emails_update_single fid row db = (Inl err, db)"
  by (simp add: emails_update_single_def emails_update_where_cases)

lemma updateSearchIndex_writes_nothing: "updateSearchIndex emailId email db = db"
  by (simp add: updateSearchIndex_def generateContentHash_def Let_def)

lemma storeEmails_step_refused: "storeEmails_step email db = (None, db)"
proof -
  let ?row = "toSupabaseRow (fromFastmailEmail email None)"
  obtain err where i: "emails_insert ?row db = (Inl err, db)"
    using emails_insert_refused by blast
  obtain updateError where u: "emails_update_single (fastmail_id ?row) ?row db = (Inl updateError, db)"
    using emails_update_single_refused by blast
  show ?thesis
    by (simp add: storeEmails_step_def Let_def i u)
qed

lemma storeEmail_refused: "\<exists>err. storeEmail email db = (Inl err, db)"
proof -
  let ?row = "toSupabaseRow (fromFastmailEmail email None)"
  obtain err where i: "emails_insert ?row db = (Inl err, db)"
    using emails_insert_refused by blast
  obtain updateError where u: "emails_update_single (fastmail_id ?row) ?row db = (Inl updateError, db)"
    using emails_update_single_refused by blast
  show ?thesis
    by (simp add: storeEmail_def Let_def i u)
qed

lemma storeEmails_store: "snd (storeEmails batch db) = db"
  by (induction batch arbitrary: db) (simp_all add: storeEmails_step_refused split: prod.splits)

lemma handleEmailDeleted_store: "handleEmailDeleted payload now db = db"
  by (simp add: handleEmailDeleted_def emails_update_where_cases)

text \<open>
  Claim C5 says that a batch of N emails of which K duplicate existing rows commits all N
  writes, each duplicate as an update, and returns the rows written. On the tables of
  migration 001 no write of the batch is committed, whatever the batch and the store:
  the insert of a new email is refused because the search trigger names a conflict target
  without unique index, the update of a known one is refused for the same reason, and
  the loop goes on to the next email. The value returned is the empty list.
\<close>

theorem storeEmails_commits_no_write:
  "storeEmails batch db = ([], db)"
  by (induction batch arbitrary: db) (simp_all add: storeEmails_step_refused)

section \<open>Search rows\<close>

lemma repair_tables:
  "emails (snd (repair_data_integrity db)) = emails db
   \<and> email_search (snd (repair_data_integrity db))
       = filter (\<lambda>s. \<not> sql_not_in (sr_email_id s) (map row_id (emails db))) (email_search db)
         @ map (\<lambda>e. \<lparr> sr_email_id = Some (row_id e),
                        search_content = sql_search_content (row_fields e) \<rparr>)
             (filter (\<lambda>e. Some (row_id e) \<notin> set (map sr_email_id
                               (filter (\<lambda>s. \<not> sql_not_in (sr_email_id s) (map row_id (emails db)))
                                  (email_search db)))
                           \<and> \<not> is_deleted (row_fields e)) (emails db))"
  by (simp add: repair_data_integrity_def update_mailbox_stats_def Let_def)

lemma repair_no_orphans: "no_orphan_search_rows (snd (repair_data_integrity db))"
  unfolding no_orphan_search_rows_def
  by (auto simp: repair_tables sql_not_in_def)

lemma repair_live_indexed: "live_emails_indexed (snd (repair_data_integrity db))"
  unfolding live_emails_indexed_def
proof (intro ballI impI)
  fix e
  assume e: "e \<in> set (emails (snd (repair_data_integrity db)))"
    and live: "\<not> is_deleted (row_fields e)"
  let ?kept = "filter (\<lambda>s. \<not> sql_not_in (sr_email_id s) (map row_id (emails db))) (email_search db)"
  from e have e': "e \<in> set (emails db)" by (simp add: repair_tables)
  show "Some (row_id e) \<in> set (map sr_email_id (email_search (snd (repair_data_integrity db))))"
  proof (cases "Some (row_id e) \<in> set (map sr_email_id ?kept)")
    case True
    then show ?thesis by (simp add: repair_tables)
  next
    case False
    with e' live have "e \<in> set (filter (\<lambda>e. Some (row_id e) \<notin> set (map sr_email_id ?kept)
                           \<and> \<not> is_deleted (row_fields e)) (emails db))"
      by simp
    then have "Some (row_id e) \<in> set (map sr_email_id
        (map (\<lambda>e. \<lparr> sr_email_id = Some (row_id e),
                     search_content = sql_search_content (row_fields e) \<rparr>)
          (filter (\<lambda>e. Some (row_id e) \<notin> set (map sr_email_id ?kept)
                           \<and> \<not> is_deleted (row_fields e)) (emails db))))"
      by (force simp: comp_def)
    then show ?thesis by (simp add: repair_tables)
  qed
qed

lemma repair_keeps_rows_without_email_id:
  assumes "emails db \<noteq> []" and "s \<in> set (email_search db)" and "sr_email_id s = None"
  shows "s \<in> set (email_search (snd (repair_data_integrity db)))"
  using assms by (simp add: repair_tables sql_not_in_def)

lemma repair_keeps_rows_of_deleted_emails:
  assumes "e \<in> set (emails db)" and "is_deleted (row_fields e)"
    and "s \<in> set (email_search db)" and "sr_email_id s = Some (row_id e)"
  shows "s \<in> set (email_search (snd (repair_data_integrity db)))"
  using assms by (simp add: repair_tables sql_not_in_def)

text \<open>
  Claim C4 says that the search row of an email is recomputed on every email upsert, so
  that an email that is not deleted has one. The two writers of search rows that an
  upsert runs fail on every call: the trigger function is refused by the database
  (conflict target \<open>email_id\<close> without unique index, code 42P10) and takes the write of
  the email with it, and \<open>updateSearchIndex\<close> throws before it sends anything. No
  upsert, single or batch, changes table \<open>email_search\<close>; after the upsert of \<open>e1\<close> into
  the empty store there is neither an email row nor a search row. What
  \<open>repair_data_integrity\<close> does to a store is stated by the lemmas above.
\<close>

theorem upserts_write_no_search_row:
  "update_email_search_vector NEW db = Inl (PgError ''42P10'')
   \<and> updateSearchIndex emailId email db = db
   \<and> email_search (snd (storeEmails batch db)) = email_search db
   \<and> email_search (snd (storeEmail single db)) = email_search db
   \<and> (case storeEmails [FastmailEmail (sample_email ''e1'' ''Privacy Policy'' ''hello'' Map.empty)]
              empty_database of
        (written, db1) \<Rightarrow> written = [] \<and> emails db1 = [] \<and> email_search db1 = [])"
proof (intro conjI)
  show "update_email_search_vector NEW db = Inl (PgError ''42P10'')"
    by (rule trigger_refused)
  show "updateSearchIndex emailId email db = db"
    by (rule updateSearchIndex_writes_nothing)
  show "email_search (snd (storeEmails batch db)) = email_search db"
    by (simp add: storeEmails_store)
  show "email_search (snd (storeEmail single db)) = email_search db"
    using storeEmail_refused [of single db] by auto
  show "case storeEmails [FastmailEmail (sample_email ''e1'' ''Privacy Policy'' ''hello'' Map.empty)]
              empty_database of
        (written, db1) \<Rightarrow> written = [] \<and> emails db1 = [] \<and> email_search db1 = []"
    by (simp add: storeEmails_step_refused empty_database_def)
qed

section \<open>Deleted emails\<close>

lemma loadConfig_rejects_every_webhook:
  "verifyWebhookSignature hmac (loadConfig env) req = Inr False"
  by (simp add: verifyWebhookSignature_def loadConfig_def split: option.splits)

text \<open>
  Claim C6 says that handling a signed \<open>email.deleted\<close> event for an email sets
  \<open>is_deleted\<close> on its row and changes no other row. The handler changes no row at all,
  whatever the store: its update is refused when it matches a row (the search trigger
  fails, code 42P10) and the refusal is not inspected. In the run of the scenario, sync
  of \<open>e2\<close> and then a delete event for \<open>e2\<close> that carries the digest of its body under
  the secret of the environment, the listener answers 401 without running the handler,
  and the store holds no row for \<open>e2\<close>, marked or not.
\<close>

theorem delete_event_marks_no_row:
  "handleEmailDeleted payload now db = db
   \<and> env_WEBHOOK_SECRET default_environment = Some ''secret''
   \<and> (case handleFastmailWebhook sample_hmac parse_deleted_e2 provider_with_e1
             (loadConfig default_environment) 2000 (signed_request ''secret'' ''{}'')
             (fresh_world\<lparr> w_db := snd (storeEmails [FastmailEmail e2] empty_database) \<rparr>) of
        None \<Rightarrow> False
      | Some (r, w') \<Rightarrow>
          resp_status r = 401 \<and> emails (w_db w') = [] \<and> w_requests w' = [])"
proof (intro conjI)
  show "handleEmailDeleted payload now db = db"
    by (rule handleEmailDeleted_store)
  show "env_WEBHOOK_SECRET default_environment = Some ''secret''"
    by (simp add: default_environment_def)
  show "case handleFastmailWebhook sample_hmac parse_deleted_e2 provider_with_e1
             (loadConfig default_environment) 2000 (signed_request ''secret'' ''{}'')
             (fresh_world\<lparr> w_db := snd (storeEmails [FastmailEmail e2] empty_database) \<rparr>) of
        None \<Rightarrow> False
      | Some (r, w') \<Rightarrow>
          resp_status r = 401 \<and> emails (w_db w') = [] \<and> w_requests w' = []"
    by (simp add: handleFastmailWebhook_def loadConfig_rejects_every_webhook
        storeEmails_step_refused fresh_world_def empty_database_def)
qed

section \<open>The tick\<close>

lemma syncEmails_loop_never_returns:
  assumes start: "I (fst ws)"
    and full: "\<And>w. I w \<Longrightarrow> \<exists>fetched w1. getEmails p (syncEmails_options tok bs) w = (Inr fetched, w1)
              \<and> fetched \<noteq> [] \<and> bs \<le> length fetched
              \<and> (\<forall>st. I (fst (fold processEmailBatch (chunkArray fetched bs) (w1, st))))"
  shows "syncEmails_loop p bs tok ws = None"
proof (rule ccontr)
  assume "syncEmails_loop p bs tok ws \<noteq> None"
  then obtain y where y: "syncEmails_loop p bs tok ws = Some y" by auto
  have "\<not> (p' = p \<and> bs' = bs \<and> tok' = tok \<and> I (fst ws'))"
    if "syncEmails_loop p' bs' tok' ws' = Some y'" for p' bs' tok' ws' y'
  proof (rule syncEmails_loop.raw_induct
      [where P = "\<lambda>p' bs' tok' ws' y'. \<not> (p' = p \<and> bs' = bs \<and> tok' = tok \<and> I (fst ws'))", OF _ that])
    fix loop :: "provider \<Rightarrow> nat \<Rightarrow> string option \<Rightarrow> world \<times> sync_stats
       \<Rightarrow> ((js_error + unit) \<times> world \<times> sync_stats) option"
    fix p' bs' tok' ws' y'
    assume IH: "\<And>p' bs' tok' ws' y'. loop p' bs' tok' ws' = Some y' \<Longrightarrow>
        \<not> (p' = p \<and> bs' = bs \<and> tok' = tok \<and> I (fst ws'))"
    assume body: "(case getEmails p' (syncEmails_options tok' bs') (fst ws') of
        (Inl e, w1) \<Rightarrow> Some (Inl e, w1, snd ws')
        | (Inr fetched, w1) \<Rightarrow>
            if fetched = [] then Some (Inr (), w1, snd ws')
            else let ws2 = fold processEmailBatch (chunkArray fetched bs') (w1, snd ws')
                 in if length fetched < bs'
                    then Some (Inr (), fst ws2, snd ws2)
                    else loop p' bs' tok' ws2) = Some y'"
    show "\<not> (p' = p \<and> bs' = bs \<and> tok' = tok \<and> I (fst ws'))"
    proof
      assume a: "p' = p \<and> bs' = bs \<and> tok' = tok \<and> I (fst ws')"
      with full [of "fst ws'"] obtain fetched w1 where
        g: "getEmails p (syncEmails_options tok bs) (fst ws') = (Inr fetched, w1)"
           "fetched \<noteq> []" "bs \<le> length fetched"
           "I (fst (fold processEmailBatch (chunkArray fetched bs) (w1, snd ws')))"
        by blast
      from body a g(1,2,3)
      have "loop p bs tok (fold processEmailBatch (chunkArray fetched bs) (w1, snd ws')) = Some y'"
        by (simp add: Let_def)
      from IH [OF this] g(4) show False by simp
    qed
  qed
  from this [OF y] start show False by simp
qed

lemma w_client_processEmailBatch:
  "w_client (fst (fold processEmailBatch batches (w, st))) = w_client w"
  by (induction batches arbitrary: w st) (simp_all add: processEmailBatch_def)

lemma getEmails_provider_with_e1:
  assumes "cl_session (w_client w) \<noteq> None"
  shows "\<exists>w1. getEmails provider_with_e1 opts w
           = (Inr [FastmailEmail (sample_email ''e1'' ''Privacy Policy'' ''hello'' Map.empty)], w1)
         \<and> w_client w1 = w_client w"
proof -
  from assms obtain s where s: "cl_session (w_client w) = Some s" by auto
  have q: "makeJMAPCall provider_with_e1 (EmailQuery q) w'
      = (Inr (QueryResult \<lparr> qr_ids = Some [''e1''], qr_queryState = Some ''s1'' \<rparr>),
         w'\<lparr> w_requests := w_requests w' @ [EmailQuery q] \<rparr>)"
    if "cl_session (w_client w') = Some s" for q w'
    using that by (simp add: makeJMAPCall_def ensureSession_def provider_with_e1_def Let_def)
  have g: "makeJMAPCall provider_with_e1 (EmailGet ids) w'
      = (Inr (EmailList (Some [sample_email ''e1'' ''Privacy Policy'' ''hello'' Map.empty])),
         w'\<lparr> w_requests := w_requests w' @ [EmailGet ids] \<rparr>)"
    if "cl_session (w_client w') = Some s" for ids w'
    using that by (simp add: makeJMAPCall_def ensureSession_def provider_with_e1_def Let_def)
  show ?thesis
    by (simp add: getEmails_def q [OF s] g s Let_def or_default_def)
qed

lemma syncEmails_batch_of_one_never_returns:
  assumes "cl_session (w_client (fst ws)) \<noteq> None"
  shows "syncEmails provider_with_e1 config_batch_of_one tok ws = None"
proof -
  have bs: "number_or (cfg_batchSize config_batch_of_one) 100 = 1"
    by (simp add: config_batch_of_one_def number_or_def)
  have "syncEmails_loop provider_with_e1 1 tok ws = None"
  proof (rule syncEmails_loop_never_returns [where I = "\<lambda>w. cl_session (w_client w) \<noteq> None"])
    show "cl_session (w_client (fst ws)) \<noteq> None" by (rule assms)
  next
    fix w :: world assume "cl_session (w_client w) \<noteq> None"
    from getEmails_provider_with_e1 [OF this, of "syncEmails_options tok 1"] this
    show "\<exists>fetched w1. getEmails provider_with_e1 (syncEmails_options tok 1) w = (Inr fetched, w1)
              \<and> fetched \<noteq> [] \<and> 1 \<le> length fetched
              \<and> (\<forall>st. cl_session (w_client (fst (fold processEmailBatch (chunkArray fetched 1) (w1, st)))) \<noteq> None)"
      by (auto simp: w_client_processEmailBatch)
  qed
  then show ?thesis by (simp add: syncEmails_def bs)
qed

text \<open>
  Claim C8 says that the email-pull loop of a tick ends for every sequence of provider
  responses, each query being issued since the state advanced by the previous batch. With
  one email per pull and a mailbox that holds one email, every query is the same and
  returns the same full batch, and \<open>syncEmails\<close> never returns. When the loop does end (the
  provider returns no ids from the fifth request on), the second query of the tick is
  the first one again: it carries no \<open>since\<close>, although the first answer came with a
  state.
\<close>

theorem full_batches_keep_the_pull_loop_running:
  "syncEmails provider_with_e1 config_batch_of_one None (connected_world, EmailSyncStats) = None
   \<and> (case performSync provider_then_empty config_batch_of_one fresh_world of
        None \<Rightarrow> False
      | Some (r, w') \<Rightarrow>
          r = Inr ()
          \<and> w_requests w' =
              [SessionGet, MailboxGet,
               EmailQuery \<lparr> q_accountId = Some ''u1'',
                            q_filter = \<lparr> flt_inMailbox = None, flt_since = None \<rparr>,
                            q_sort = [\<lparr> sort_property = ''date'', sort_isAscending = False \<rparr>],
                            q_limit = 1 \<rparr>,
               EmailGet [Some ''e1''],
               EmailQuery \<lparr> q_accountId = Some ''u1'',
                            q_filter = \<lparr> flt_inMailbox = None, flt_since = None \<rparr>,
                            q_sort = [\<lparr> sort_property = ''date'', sort_isAscending = False \<rparr>],
                            q_limit = 1 \<rparr>])"
proof -
  have "syncEmails provider_with_e1 config_batch_of_one None (connected_world, EmailSyncStats)
          = None"
    by (rule syncEmails_batch_of_one_never_returns) (simp add: connected_world_def)
  moreover have "(case performSync provider_then_empty config_batch_of_one fresh_world of
        None \<Rightarrow> False
      | Some (r, w') \<Rightarrow>
          r = Inr ()
          \<and> w_requests w' =
              [SessionGet, MailboxGet,
               EmailQuery \<lparr> q_accountId = Some ''u1'',
                            q_filter = \<lparr> flt_inMailbox = None, flt_since = None \<rparr>,
                            q_sort = [\<lparr> sort_property = ''date'', sort_isAscending = False \<rparr>],
                            q_limit = 1 \<rparr>,
               EmailGet [Some ''e1''],
               EmailQuery \<lparr> q_accountId = Some ''u1'',
                            q_filter = \<lparr> flt_inMailbox = None, flt_since = None \<rparr>,
                            q_sort = [\<lparr> sort_property = ''date'', sort_isAscending = False \<rparr>],
                            q_limit = 1 \<rparr>])"
    by code_simp
  ultimately show ?thesis by (rule conjI)
qed

text \<open>
  The same with the batch size that the service has under every configuration of
  \<open>loadConfig\<close>, a hundred, and a mailbox that holds a hundred emails.
\<close>

lemma getEmails_provider_with_hundred:
  assumes "cl_session (w_client w) \<noteq> None"
  shows "\<exists>w1. getEmails provider_with_hundred opts w
           = (Inr (map FastmailEmail hundred_emails), w1)
         \<and> w_client w1 = w_client w"
proof -
  from assms obtain s where s: "cl_session (w_client w) = Some s" by auto
  have q: "makeJMAPCall provider_with_hundred (EmailQuery q) w'
      = (Inr (QueryResult \<lparr> qr_ids = Some (replicate 100 ''e1''), qr_queryState = Some ''s1'' \<rparr>),
         w'\<lparr> w_requests := w_requests w' @ [EmailQuery q] \<rparr>)"
    if "cl_session (w_client w') = Some s" for q w'
    using that by (simp add: makeJMAPCall_def ensureSession_def provider_with_hundred_def Let_def)
  have g: "makeJMAPCall provider_with_hundred (EmailGet ids) w'
      = (Inr (EmailList (Some hundred_emails)),
         w'\<lparr> w_requests := w_requests w' @ [EmailGet ids] \<rparr>)"
    if "cl_session (w_client w') = Some s" for ids w'
    using that by (simp add: makeJMAPCall_def ensureSession_def provider_with_hundred_def Let_def)
  show ?thesis
    by (simp add: getEmails_def q [OF s] g s Let_def or_default_def)
qed

lemma syncEmails_default_batch_never_returns:
  assumes "cl_session (w_client (fst ws)) \<noteq> None"
  shows "syncEmails provider_with_hundred (loadConfig env) tok ws = None"
proof -
  have bs: "number_or (cfg_batchSize (loadConfig env)) 100 = 100"
    by (simp add: loadConfig_def number_or_def)
  have "syncEmails_loop provider_with_hundred 100 tok ws = None"
  proof (rule syncEmails_loop_never_returns [where I = "\<lambda>w. cl_session (w_client w) \<noteq> None"])
    show "cl_session (w_client (fst ws)) \<noteq> None" by (rule assms)
  next
    fix w :: world assume "cl_session (w_client w) \<noteq> None"
    from getEmails_provider_with_hundred [OF this, of "syncEmails_options tok 100"] this
    show "\<exists>fetched w1. getEmails provider_with_hundred (syncEmails_options tok 100) w = (Inr fetched, w1)
              \<and> fetched \<noteq> [] \<and> 100 \<le> length fetched
              \<and> (\<forall>st. cl_session (w_client (fst (fold processEmailBatch (chunkArray fetched 100) (w1, st)))) \<noteq> None)"
      by (auto simp: w_client_processEmailBatch hundred_emails_def)
  qed
  then show ?thesis by (simp add: syncEmails_def bs)
qed

text \<open>
  Claim C1 says that after a tick that pulls \<open>n\<close> emails the cursor holds the latest
  state of the provider. The provider answers the query of the tick with the id of
  \<open>e1\<close> and the state \<open>s1\<close>; the tick adds 1 to \<open>total_emails_synced\<close> and sets the
  status to completed, and leaves \<open>last_sync_token\<close> as it was, empty. The next tick
  therefore sends the same query again, without \<open>since\<close>, pulls \<open>e1\<close> again and counts
  it again.
\<close>

theorem tick_leaves_the_sync_token_behind:
  "answer_call provider_with_e1 2
       (EmailQuery (getEmails_queryParams (Some ''u1'') (syncEmails_options None 100)))
     = Inr (QueryResult \<lparr> qr_ids = Some [''e1''], qr_queryState = Some ''s1'' \<rparr>)
   \<and> (case performSync provider_with_e1 (loadConfig default_environment) fresh_world of
        None \<Rightarrow> False
      | Some (r, w') \<Rightarrow>
          r = Inr ()
          \<and> map (\<lambda>s. (last_sync_token s, total_emails_synced s, sync_status s))
                (sync_state (w_db w')) = [(None, 1, COMPLETED)]
          \<and> (case performSync provider_with_e1 (loadConfig default_environment) w' of
                None \<Rightarrow> False
              | Some (r2, w2) \<Rightarrow>
                  r2 = Inr ()
                  \<and> w_requests w2 = w_requests w' @
                      [SessionGet, MailboxGet,
                       EmailQuery \<lparr> q_accountId = Some ''u1'',
                                    q_filter = \<lparr> flt_inMailbox = None, flt_since = None \<rparr>,
                                    q_sort = [\<lparr> sort_property = ''date'',
                                                sort_isAscending = False \<rparr>],
                                    q_limit = 100 \<rparr>,
                       EmailGet [Some ''e1'']]
                  \<and> map (\<lambda>s. (last_sync_token s, total_emails_synced s, sync_status s))
                        (sync_state (w_db w2)) = [(None, 2, COMPLETED)]))"
proof (rule conjI)
  show "answer_call provider_with_e1 2
       (EmailQuery (getEmails_queryParams (Some ''u1'') (syncEmails_options None 100)))
     = Inr (QueryResult \<lparr> qr_ids = Some [''e1''], qr_queryState = Some ''s1'' \<rparr>)"
    by (simp add: provider_with_e1_def)
next
  show "(case performSync provider_with_e1 (loadConfig default_environment) fresh_world of
        None \<Rightarrow> False
      | Some (r, w') \<Rightarrow>
          r = Inr ()
          \<and> map (\<lambda>s. (last_sync_token s, total_emails_synced s, sync_status s))
                (sync_state (w_db w')) = [(None, 1, COMPLETED)]
          \<and> (case performSync provider_with_e1 (loadConfig default_environment) w' of
                None \<Rightarrow> False
              | Some (r2, w2) \<Rightarrow>
                  r2 = Inr ()
                  \<and> w_requests w2 = w_requests w' @
                      [SessionGet, MailboxGet,
                       EmailQuery \<lparr> q_accountId = Some ''u1'',
                                    q_filter = \<lparr> flt_inMailbox = None, flt_since = None \<rparr>,
                                    q_sort = [\<lparr> sort_property = ''date'',
                                                sort_isAscending = False \<rparr>],
                                    q_limit = 100 \<rparr>,
                       EmailGet [Some ''e1'']]
                  \<and> map (\<lambda>s. (last_sync_token s, total_emails_synced s, sync_status s))
                        (sync_state (w_db w2)) = [(None, 2, COMPLETED)]))"
    by code_simp
qed

text \<open>
  Claim C3 says that a step that fails with a transient error is tried again up to
  \<open>MAX_RETRIES\<close> times. The configuration allows three retries and the connection fails
  once, on the request for the mailboxes, which the provider would answer the next time;
  the tick sends that request once, records the error on the cursor and throws it.
\<close>

theorem transient_failure_is_not_retried:
  "map_option maxRetries (cfg_sync (loadConfig default_environment)) = Some 3
   \<and> answer_call provider_failing_once 1 MailboxGet = Inl ''ECONNRESET''
   \<and> answer_call provider_failing_once 2 MailboxGet = Inr (MailboxList (Some [inbox]))
   \<and> (case performSync provider_failing_once (loadConfig default_environment) fresh_world of
        None \<Rightarrow> False
      | Some (r, w') \<Rightarrow>
          r = Inl (Error ''JMAP call failed: ECONNRESET'')
          \<and> w_requests w' = [SessionGet, MailboxGet]
          \<and> map (\<lambda>s. (last_sync_token s, total_emails_synced s, sync_status s, last_error s))
                (sync_state (w_db w'))
              = [(None, 0, ERROR, Some ''JMAP call failed: ECONNRESET'')])"
proof (intro conjI)
  show "map_option maxRetries (cfg_sync (loadConfig default_environment)) = Some 3"
    by (simp add: loadConfig_def default_environment_def number_or_def)
next
  show "answer_call provider_failing_once 1 MailboxGet = Inl ''ECONNRESET''"
    by (simp add: provider_failing_once_def)
next
  show "answer_call provider_failing_once 2 MailboxGet = Inr (MailboxList (Some [inbox]))"
    by (simp add: provider_failing_once_def provider_with_e1_def)
next
  show "(case performSync provider_failing_once (loadConfig default_environment) fresh_world of
        None \<Rightarrow> False
      | Some (r, w') \<Rightarrow>
          r = Inl (Error ''JMAP call failed: ECONNRESET'')
          \<and> w_requests w' = [SessionGet, MailboxGet]
          \<and> map (\<lambda>s. (last_sync_token s, total_emails_synced s, sync_status s, last_error s))
                (sync_state (w_db w'))
              = [(None, 0, ERROR, Some ''JMAP call failed: ECONNRESET'')])"
    by code_simp
qed

section \<open>Webhook signatures\<close>

lemma rejected_webhook_changes_nothing:
  assumes "verifyWebhookSignature hmac config req \<noteq> Inr True"
  shows "\<exists>r. handleFastmailWebhook hmac parse p config now req w = Some (r, w)
           \<and> (resp_status r = 401 \<or> resp_status r = 500)"
proof (cases "verifyWebhookSignature hmac config req")
  case (Inl e)
  then show ?thesis by (simp add: handleFastmailWebhook_def)
next
  case (Inr b)
  with assms have "b = False" by auto
  with Inr show ?thesis by (simp add: handleFastmailWebhook_def)
qed

lemma unsigned_webhook_is_unauthorized:
  assumes "\<not> truthy (req_signature req) \<or> \<not> truthy (cfg_webhookSecret config)"
  shows "handleFastmailWebhook hmac parse p config now req w
           = Some (\<lparr> resp_status = 401, resp_json = ''Invalid signature'' \<rparr>, w)"
proof -
  have "verifyWebhookSignature hmac config req = Inr False"
    using assms
    by (auto simp: verifyWebhookSignature_def truthy_def split: option.splits)
  then show ?thesis by (simp add: handleFastmailWebhook_def)
qed

text \<open>
  The comparison of the digests throws when they differ in length, and the answer is
  then 500. This needs a configuration object with the property \<open>webhookSecret\<close>, which
  \<open>loadConfig\<close> does not produce.
\<close>

lemma short_digest_is_answered_500:
  "(case handleFastmailWebhook sample_hmac parse_nothing provider_with_e1 config_with_secret 2000
           \<lparr> req_signature = Some ''sha256=ab'', req_body = ''{}'' \<rparr> fresh_world of
      None \<Rightarrow> False
    | Some (r, w') \<Rightarrow>
        resp_status r = 500 \<and> w_requests w' = [] \<and> emails (w_db w') = []
        \<and> email_search (w_db w') = [] \<and> sync_state (w_db w') = [])"
  by code_simp

text \<open>
  Claim C2. A request to the webhook endpoint whose signature is missing or is not the
  keyed digest of its body, or that arrives when no secret is configured, is answered
  with status 401, no engine operation runs and no row is written. The listener reads
  the secret from \<open>config.webhookSecret\<close> while \<open>loadConfig\<close> stores it under
  \<open>config.webhook.secret\<close>, so under every configuration that \<open>loadConfig\<close> produces the
  listener finds no secret: every request, whatever its signature and body, is answered
  401 and leaves the store, the client and the requests sent to the provider as they
  were.
\<close>

theorem webhook_is_answered_401:
  "handleFastmailWebhook hmac parse p (loadConfig env) now req w
     = Some (\<lparr> resp_status = 401, resp_json = ''Invalid signature'' \<rparr>, w)"
proof -
  have "verifyWebhookSignature hmac (loadConfig env) req = Inr False"
    by (simp add: verifyWebhookSignature_def loadConfig_def split: option.splits)
  then show ?thesis by (simp add: handleFastmailWebhook_def)
qed

section \<open>Exits of the pull loop\<close>

lemma getSession_store:
  assumes "getSession p w = (r, w')"
  shows "w_db w' = w_db w"
  using assms by (auto simp: getSession_def Let_def split: sum.splits if_splits option.splits)

lemma ensureSession_store:
  assumes "ensureSession p w = (r, w')"
  shows "w_db w' = w_db w"
  using assms getSession_store [of p w]
  by (cases "getSession p w")
     (auto simp: ensureSession_def split: prod.splits sum.splits if_splits option.splits)

lemma makeJMAPCall_store:
  assumes "makeJMAPCall p call w = (r, w')"
  shows "w_db w' = w_db w"
proof -
  obtain r0 w0 where e: "ensureSession p w = (r0, w0)"
    by (cases "ensureSession p w")
  from ensureSession_store [OF e] have "w_db w0 = w_db w" .
  with assms e show ?thesis
    by (auto simp: makeJMAPCall_def Let_def split: prod.splits option.splits sum.splits if_splits)
qed

lemma getEmails_store:
  assumes "getEmails p opts w = (r, w')"
  shows "w_db w' = w_db w"
proof -
  let ?q = "EmailQuery (getEmails_queryParams (cl_accountId (w_client w)) opts)"
  obtain r1 w1 where q: "makeJMAPCall p ?q w = (r1, w1)"
    by (cases "makeJMAPCall p ?q w")
  from makeJMAPCall_store [OF q] have w1: "w_db w1 = w_db w" .
  have w2: "w_db w2 = w_db w" if "makeJMAPCall p c w1 = (r2, w2)" for c r2 w2
    using makeJMAPCall_store [OF that] w1 by simp
  show ?thesis
    using assms q w1 w2
    by (auto simp: getEmails_def Let_def split: prod.splits sum.splits jmap_answer.splits if_splits)
qed

lemma syncEmails_loop_stops_on_error:
  assumes "getEmails p (syncEmails_options tok bs) (fst ws) = (Inl e, w1)"
  shows "syncEmails_loop p bs tok ws = Some (Inl e, w1, snd ws)"
  using assms by (subst syncEmails_loop.simps) simp

lemma syncEmails_loop_stops_on_empty:
  assumes "getEmails p (syncEmails_options tok bs) (fst ws) = (Inr [], w1)"
  shows "syncEmails_loop p bs tok ws = Some (Inr (), w1, snd ws) \<and> w_db w1 = w_db (fst ws)"
proof
  show "syncEmails_loop p bs tok ws = Some (Inr (), w1, snd ws)"
    using assms by (subst syncEmails_loop.simps) simp
  show "w_db w1 = w_db (fst ws)"
    using getEmails_store [OF assms] .
qed

lemma syncEmails_loop_stops_on_short_batch:
  assumes "getEmails p (syncEmails_options tok bs) (fst ws) = (Inr fetched, w1)"
    and "fetched \<noteq> []" and "length fetched < bs"
  shows "syncEmails_loop p bs tok ws
           = Some (Inr (), fst (fold processEmailBatch (chunkArray fetched bs) (w1, snd ws)),
                   snd (fold processEmailBatch (chunkArray fetched bs) (w1, snd ws)))"
  using assms by (subst syncEmails_loop.simps) (simp add: Let_def)

section \<open>Flags taken from the provider\<close>

text \<open>
  Claim C10. Converting a provider email record derives the stored booleans directly
  from the keyword flags: \<open>is_read\<close> is true exactly when keyword \<open>$seen\<close> is true,
  \<open>is_flagged\<close> when \<open>$flagged\<close> is, \<open>is_deleted\<close> when \<open>$deleted\<close> is. The claim goes on:
  so an ordinary upsert can mark a row deleted. The row that the upsert sends is so
  marked, but the upsert of a record, with \<open>$deleted\<close> or without, leaves table \<open>emails\<close>
  as it was: no row is marked by it.
\<close>

theorem converted_flags_follow_keywords:
  "is_read (toSupabaseRow (fromFastmailEmail (FastmailEmail d) mb))
     = (or_default (je_keywords d) Map.empty ''$seen'' = Some True)
   \<and> is_flagged (toSupabaseRow (fromFastmailEmail (FastmailEmail d) mb))
     = (or_default (je_keywords d) Map.empty ''$flagged'' = Some True)
   \<and> is_deleted (toSupabaseRow (fromFastmailEmail (FastmailEmail d) mb))
     = (or_default (je_keywords d) Map.empty ''$deleted'' = Some True)
   \<and> emails (snd (storeEmails [FastmailEmail d] db)) = emails db
   \<and> fst (storeEmails [FastmailEmail (sample_email ''e2'' ''weekend plans'' ''hi''
                                         [''$deleted'' \<mapsto> True])] empty_database) = []"
proof (intro conjI)
  show "is_read (toSupabaseRow (fromFastmailEmail (FastmailEmail d) mb))
     = (or_default (je_keywords d) Map.empty ''$seen'' = Some True)"
    by (simp add: toSupabaseRow_def fromFastmailEmail_def FastmailEmail_def Let_def
        keyword_flag_iff)
  show "is_flagged (toSupabaseRow (fromFastmailEmail (FastmailEmail d) mb))
     = (or_default (je_keywords d) Map.empty ''$flagged'' = Some True)"
    by (simp add: toSupabaseRow_def fromFastmailEmail_def FastmailEmail_def Let_def
        keyword_flag_iff)
  show "is_deleted (toSupabaseRow (fromFastmailEmail (FastmailEmail d) mb))
     = (or_default (je_keywords d) Map.empty ''$deleted'' = Some True)"
    by (simp add: toSupabaseRow_def fromFastmailEmail_def FastmailEmail_def Let_def
        keyword_flag_iff)
  show "emails (snd (storeEmails [FastmailEmail d] db)) = emails db"
    by (simp only: storeEmails_store)
  show "fst (storeEmails [FastmailEmail (sample_email ''e2'' ''weekend plans'' ''hi''
                                         [''$deleted'' \<mapsto> True])] empty_database) = []"
    by (simp add: storeEmails_step_refused)
qed

end
